theory Spec2Isabelle
  imports Complex_Main "HOL-Library.Product_Lexorder" "HOL-Library.Multiset"
begin

section \<open>Data model\<close>

text \<open>
  The dashboard \<^verbatim>\<open>src/app.py\<close> works on pandas data frames. A frame is modelled
  column by column, as pandas stores it: a record with one list per column, all of the
  length of the index. Columns that the code adds by assignment are optional
  (\<open>None\<close> while the frame does not have them).

  Frames are objects: the code assigns columns into the frame it was given. The store is
  the list of the frames allocated so far and a reference is a position in it, so that
  assigning into a frame and creating a new one are different things.

  Numbers: \<^verbatim>\<open>read_csv\<close> loads the numeric columns as 64-bit floats. A cell is \<open>None\<close>
  when the value is missing (NaN) and \<open>Some v\<close> otherwise, with \<open>v\<close> the real number the
  float denotes (a whole-number code \<open>3.0\<close> is \<open>Some 3\<close>; infinite values are left out). The
  code only compares these values, tests them for zero, truncates them with \<^verbatim>\<open>int\<close> and
  uses them as dict keys. Strings are byte lists (UTF-8).
\<close>

type_synonym ref = nat

type_synonym float64 = "real option"

text \<open>
  The exceptions the code can raise: a KeyError with the key that was looked up (a number,
  or the name of a column), and the ValueError of \<^verbatim>\<open>int\<close> on NaN.
\<close>

datatype error = KeyError_code real | KeyError_column string | ValueError_nan

record 'a taxi_df =
  t_index :: "nat list"
  Trip_Miles :: "float64 list"
  t_other :: "'a list"

record 'a survey_df =
  s_index :: "nat list"
  Diabetes_binary :: "float64 list"
  Income :: "float64 list"
  GenHlth :: "float64 list"
  BMI :: "float64 list"
  s_other :: "'a list"
  Has_Diabetes :: "bool list option"
  Has_Diabetes_Bin :: "bool list option"
  Diabetic_Status :: "string list option"
  General_Health_Assessment :: "string list option"
  has_diabetes_human_readable :: "string list option"

text \<open>The frame that \<^verbatim>\<open>diabetic_salary_prep\<close> returns, after the renaming of its columns.\<close>

record counts_df =
  c_index :: "nat list"
  c_Income :: "real list"
  c_Has_Diabetes :: "bool list"
  Number_of_Individuals :: "nat list"
  Income_Bracket :: "string list"

text \<open>Rows, for the statements that speak of records: the loaded columns of a frame, zipped.\<close>

record 'a trip_record =
  trip_label :: nat
  trip_miles :: float64
  trip_other :: 'a

record 'a survey_record =
  row_label :: nat
  row_diabetes :: float64
  row_income :: float64
  row_genHlth :: float64
  row_bmi :: float64
  row_other :: 'a

definition trip_rows :: "'a taxi_df \<Rightarrow> 'a trip_record list" where
  "trip_rows df =
     map (\<lambda>(l, m, x). \<lparr>trip_label = l, trip_miles = m, trip_other = x\<rparr>)
       (zip (t_index df) (zip (Trip_Miles df) (t_other df)))"

definition survey_rows :: "'a survey_df \<Rightarrow> 'a survey_record list" where
  "survey_rows df =
     map (\<lambda>(l, d, i, g, b, x).
            \<lparr>row_label = l, row_diabetes = d, row_income = i, row_genHlth = g,
             row_bmi = b, row_other = x\<rparr>)
       (zip (s_index df) (zip (Diabetes_binary df) (zip (Income df)
          (zip (GenHlth df) (zip (BMI df) (s_other df))))))"

definition opt_len :: "nat \<Rightarrow> 'b list option \<Rightarrow> bool" where
  "opt_len n c = (case c of None \<Rightarrow> True | Some xs \<Rightarrow> length xs = n)"

definition wf_survey :: "'a survey_df \<Rightarrow> bool" where
  "wf_survey df =
     (let n = length (s_index df)
      in length (Diabetes_binary df) = n \<and> length (Income df) = n \<and> length (GenHlth df) = n
         \<and> length (BMI df) = n \<and> length (s_other df) = n
         \<and> opt_len n (Has_Diabetes df) \<and> opt_len n (Has_Diabetes_Bin df)
         \<and> opt_len n (Diabetic_Status df) \<and> opt_len n (General_Health_Assessment df)
         \<and> opt_len n (has_diabetes_human_readable df))"

section \<open>The pandas operations the code uses\<close>

text \<open>\<^verbatim>\<open>s[mask]\<close>: the entries of a column at the positions where the mask is true.\<close>

fun bool_index :: "'a list \<Rightarrow> bool list \<Rightarrow> 'a list" where
  "bool_index (x # xs) (b # bs) = (if b then x # bool_index xs bs else bool_index xs bs)"
| "bool_index _ _ = []"

text \<open>\<^verbatim>\<open>s.between(left, right)\<close>, both ends inclusive; a missing value is not between.\<close>

definition series_between :: "float64 list \<Rightarrow> real \<Rightarrow> real \<Rightarrow> bool list" where
  "series_between s left right =
     map (\<lambda>x. case x of None \<Rightarrow> False | Some d \<Rightarrow> left \<le> d \<and> d \<le> right) s"

text \<open>\<^verbatim>\<open>s.astype(bool)\<close>: zero is false, every other value is true, NaN too.\<close>

definition series_astype_bool :: "float64 list \<Rightarrow> bool list" where
  "series_astype_bool s = map (\<lambda>x. case x of None \<Rightarrow> True | Some v \<Rightarrow> v \<noteq> 0) s"

definition series_invert :: "bool list \<Rightarrow> bool list" where
  "series_invert s = map Not s"

text \<open>\<^verbatim>\<open>s <= c\<close>: a comparison with NaN is false.\<close>

definition series_le :: "float64 list \<Rightarrow> real \<Rightarrow> bool list" where
  "series_le s c = map (\<lambda>x. case x of None \<Rightarrow> False | Some v \<Rightarrow> v \<le> c) s"

text \<open>\<^verbatim>\<open>s.apply(f)\<close>: the first exception that \<open>f\<close> raises ends the call.\<close>

fun series_apply :: "('a \<Rightarrow> error + 'b) \<Rightarrow> 'a list \<Rightarrow> error + 'b list" where
  "series_apply f [] = Inr []"
| "series_apply f (x # xs) =
     (case f x of
        Inl e \<Rightarrow> Inl e
      | Inr y \<Rightarrow> (case series_apply f xs of Inl e \<Rightarrow> Inl e | Inr ys \<Rightarrow> Inr (y # ys)))"

text \<open>\<^verbatim>\<open>d[k]\<close> on a dict raises KeyError for a key that is not in it.\<close>

definition dict_getitem :: "(int \<rightharpoonup> 'v) \<Rightarrow> int \<Rightarrow> error + 'v" where
  "dict_getitem d k = (case d k of None \<Rightarrow> Inl (KeyError_code (of_int k)) | Some v \<Rightarrow> Inr v)"

text \<open>
  \<^verbatim>\<open>d[x]\<close> with a float \<open>x\<close> on a dict with int keys: a float is equal to an int key, and
  hashes like it, exactly when it is that whole number.
\<close>

definition dict_getitem_float :: "(int \<rightharpoonup> 'v) \<Rightarrow> real \<Rightarrow> error + 'v" where
  "dict_getitem_float d x =
     (if x = of_int \<lfloor>x\<rfloor> then dict_getitem d \<lfloor>x\<rfloor> else Inl (KeyError_code x))"

text \<open>\<^verbatim>\<open>int(x)\<close> of a float: truncation towards zero, and a ValueError for NaN.\<close>

definition py_trunc :: "real \<Rightarrow> int" where
  "py_trunc v = (if 0 \<le> v then \<lfloor>v\<rfloor> else \<lceil>v\<rceil>)"

definition py_int :: "float64 \<Rightarrow> error + int" where
  "py_int x = (case x of None \<Rightarrow> Inl ValueError_nan | Some v \<Rightarrow> Inr (py_trunc v))"

text \<open>\<^verbatim>\<open>df[name]\<close> on an added column raises KeyError while the frame does not have it.\<close>

definition getitem_column :: "string \<Rightarrow> 'b list option \<Rightarrow> error + 'b list" where
  "getitem_column name c = (case c of None \<Rightarrow> Inl (KeyError_column name) | Some s \<Rightarrow> Inr s)"

text \<open>\<^verbatim>\<open>df[mask]\<close>: a new frame with the selected rows of every column, index included.\<close>

definition taxi_getitem_mask :: "'a taxi_df \<Rightarrow> bool list \<Rightarrow> 'a taxi_df" where
  "taxi_getitem_mask df m =
     \<lparr>t_index = bool_index (t_index df) m,
      Trip_Miles = bool_index (Trip_Miles df) m,
      t_other = bool_index (t_other df) m\<rparr>"

definition survey_getitem_mask :: "'a survey_df \<Rightarrow> bool list \<Rightarrow> 'a survey_df" where
  "survey_getitem_mask df m =
     \<lparr>s_index = bool_index (s_index df) m,
      Diabetes_binary = bool_index (Diabetes_binary df) m,
      Income = bool_index (Income df) m,
      GenHlth = bool_index (GenHlth df) m,
      BMI = bool_index (BMI df) m,
      s_other = bool_index (s_other df) m,
      Has_Diabetes = map_option (\<lambda>c. bool_index c m) (Has_Diabetes df),
      Has_Diabetes_Bin = map_option (\<lambda>c. bool_index c m) (Has_Diabetes_Bin df),
      Diabetic_Status = map_option (\<lambda>c. bool_index c m) (Diabetic_Status df),
      General_Health_Assessment = map_option (\<lambda>c. bool_index c m) (General_Health_Assessment df),
      has_diabetes_human_readable =
        map_option (\<lambda>c. bool_index c m) (has_diabetes_human_readable df)\<rparr>"

text \<open>
  \<^verbatim>\<open>.groupby(keys).size().reset_index()\<close>: one entry for each distinct key that occurs,
  in ascending order of the keys, with the number of rows that have the key. Rows whose
  key is NaN are left out of every group (\<^verbatim>\<open>dropna\<close>).
\<close>

fun dropna_keys :: "(float64 \<times> 'b) list \<Rightarrow> (real \<times> 'b) list" where
  "dropna_keys [] = []"
| "dropna_keys ((None, h) # ks) = dropna_keys ks"
| "dropna_keys ((Some v, h) # ks) = (v, h) # dropna_keys ks"

definition groupby_size :: "('k::linorder) list \<Rightarrow> ('k \<times> nat) list" where
  "groupby_size ks = map (\<lambda>k. (k, count_list ks k)) (sort (remdups ks))"

text \<open>A new object: it gets the next free position of the store.\<close>

definition alloc :: "'f list \<Rightarrow> 'f \<Rightarrow> ref \<times> 'f list" where
  "alloc st v = (length st, st @ [v])"

section \<open>The functions of \<^verbatim>\<open>src/app.py\<close>\<close>

text \<open>
  \<^verbatim>\<open>filter_by_trip_distance\<close> (lines 27 to 29). The decorator
  \<^verbatim>\<open>st.experimental_memo\<close> stores results by argument; the body below is what a call
  computes.
\<close>

definition filter_by_trip_distance :: "'a taxi_df list \<Rightarrow> ref \<Rightarrow> int \<Rightarrow> ref \<times> 'a taxi_df list" where
  "filter_by_trip_distance st df length_of_trip =
     alloc st
       (taxi_getitem_mask (st ! df)
          (series_between (Trip_Miles (st ! df))
             (of_int (length_of_trip - 1)) (of_int length_of_trip)))"

text \<open>The two dicts (lines 36 to 47 and 70 to 78).\<close>

definition income_code_to_text :: "int \<rightharpoonup> string" where
  "income_code_to_text = map_of
     [(1, ''Less than $10,000''),
      (2, ''$10,000 - $15,000''),
      (3, ''$15,000 - $20,000''),
      (4, ''$20,000 - $25,000''),
      (5, ''$25,000 - $35,000''),
      (6, ''$35,000 - $50,000''),
      (7, ''$50,000 - $75,000''),
      (8, ''$75,000 or more''),
      (77, ''Don'' @ [CHR 0xC3, CHR 0xA2, CHR 0xE2, CHR 0x82, CHR 0xAC, CHR 0xE2, CHR 0x84, CHR 0xA2]
             @ ''t know/Not sure''),
      (99, ''Refused'')]"

definition gen_hlth_mapping :: "int \<rightharpoonup> string" where
  "gen_hlth_mapping = map_of
     [(1, ''Excellent''),
      (2, ''Very Good''),
      (3, ''Good''),
      (4, ''Fair''),
      (5, ''Poor''),
      (7, ''Don'' @ [CHR 0x27] @ ''t know / Not Sure''),
      (9, ''Refused'')]"

text \<open>Column assignment \<^verbatim>\<open>df[name] = s\<close> into the frame at a reference.\<close>

definition set_Has_Diabetes :: "'a survey_df list \<Rightarrow> ref \<Rightarrow> bool list \<Rightarrow> 'a survey_df list" where
  "set_Has_Diabetes st r s = st[r := (st ! r)\<lparr>Has_Diabetes := Some s\<rparr>]"

definition set_Has_Diabetes_Bin :: "'a survey_df list \<Rightarrow> ref \<Rightarrow> bool list \<Rightarrow> 'a survey_df list" where
  "set_Has_Diabetes_Bin st r s = st[r := (st ! r)\<lparr>Has_Diabetes_Bin := Some s\<rparr>]"

definition set_Diabetic_Status :: "'a survey_df list \<Rightarrow> ref \<Rightarrow> string list \<Rightarrow> 'a survey_df list" where
  "set_Diabetic_Status st r s = st[r := (st ! r)\<lparr>Diabetic_Status := Some s\<rparr>]"

definition set_General_Health_Assessment ::
  "'a survey_df list \<Rightarrow> ref \<Rightarrow> string list \<Rightarrow> 'a survey_df list" where
  "set_General_Health_Assessment st r s = st[r := (st ! r)\<lparr>General_Health_Assessment := Some s\<rparr>]"

definition set_has_diabetes_human_readable ::
  "'a survey_df list \<Rightarrow> ref \<Rightarrow> string list \<Rightarrow> 'a survey_df list" where
  "set_has_diabetes_human_readable st r s =
     st[r := (st ! r)\<lparr>has_diabetes_human_readable := Some s\<rparr>]"

text \<open>
  Lines 49 to 53 of \<^verbatim>\<open>diabetic_salary_prep\<close> and 84 to 87 of \<^verbatim>\<open>gen_health_prep\<close>: the
  rows of one side of the column \<^verbatim>\<open>Has Diabetes\<close>, as a new frame.
\<close>

definition applicable :: "'a survey_df \<Rightarrow> string \<Rightarrow> error + 'a survey_df" where
  "applicable df diab_status =
     (if diab_status = ''True''
      then (case getitem_column ''Has Diabetes'' (Has_Diabetes df) of
              Inl e \<Rightarrow> Inl e
            | Inr has \<Rightarrow> Inr (survey_getitem_mask df has))
      else (case getitem_column ''Has Diabetes'' (Has_Diabetes df) of
              Inl e \<Rightarrow> Inl e
            | Inr has \<Rightarrow> Inr (survey_getitem_mask df (series_invert has))))"

text \<open>The lambda of line 58: \<^verbatim>\<open>income_code_to_text[x]\<close>, on the float of the column.\<close>

definition income_bracket :: "real \<Rightarrow> error + string" where
  "income_bracket x = dict_getitem_float income_code_to_text x"

text \<open>The lambda of line 81: \<^verbatim>\<open>gen_hlth_mapping[int(x)]\<close>.\<close>

definition gen_hlth_label :: "float64 \<Rightarrow> error + string" where
  "gen_hlth_label x =
     (case py_int x of Inl e \<Rightarrow> Inl e | Inr k \<Rightarrow> dict_getitem gen_hlth_mapping k)"

text \<open>
  Lines 56 to 58: the counts of the pairs (Income, Has Diabetes) of a frame, and the label
  of each income code.
\<close>

definition diabetes_counts :: "'a survey_df \<Rightarrow> error + counts_df" where
  "diabetes_counts diabetes_applicable =
     (case getitem_column ''Has Diabetes'' (Has_Diabetes diabetes_applicable) of
        Inl e \<Rightarrow> Inl e
      | Inr has \<Rightarrow>
          (let groups = groupby_size (dropna_keys (zip (Income diabetes_applicable) has))
           in case series_apply income_bracket (map (\<lambda>g. fst (fst g)) groups) of
                Inl e \<Rightarrow> Inl e
              | Inr brackets \<Rightarrow>
                  Inr \<lparr>c_index = [0..<length groups],
                       c_Income = map (\<lambda>g. fst (fst g)) groups,
                       c_Has_Diabetes = map (\<lambda>g. snd (fst g)) groups,
                       Number_of_Individuals = map snd groups,
                       Income_Bracket = brackets\<rparr>))"

text \<open>\<^verbatim>\<open>diabetic_salary_prep\<close> (lines 33 to 59), the body that a call not yet stored runs.\<close>

definition diabetic_salary_prep ::
  "'a survey_df list \<Rightarrow> ref \<Rightarrow> string \<Rightarrow> (error + counts_df) \<times> 'a survey_df list" where
  "diabetic_salary_prep st diabetes_df diab_status =
     (let st1 = set_Has_Diabetes st diabetes_df
                  (series_astype_bool (Diabetes_binary (st ! diabetes_df)))
      in case applicable (st1 ! diabetes_df) diab_status of
           Inl e \<Rightarrow> (Inl e, st1)
         | Inr diabetes_applicable \<Rightarrow> (diabetes_counts diabetes_applicable, st1))"

text \<open>\<^verbatim>\<open>diabetic_bmi_prep\<close> (lines 62 to 65): it returns the frame it was given.\<close>

definition diabetic_bmi_prep :: "'a survey_df list \<Rightarrow> ref \<Rightarrow> (error + ref) \<times> 'a survey_df list" where
  "diabetic_bmi_prep st diabetes_df =
     (let st1 = set_Has_Diabetes_Bin st diabetes_df
                  (series_astype_bool (Diabetes_binary (st ! diabetes_df)))
      in case getitem_column ''Has Diabetes Bin'' (Has_Diabetes_Bin (st1 ! diabetes_df)) of
           Inl e \<Rightarrow> (Inl e, st1)
         | Inr bin \<Rightarrow>
             (Inr diabetes_df,
              set_Diabetic_Status st1 diabetes_df
                (map (\<lambda>x. if x then ''Diabetic'' else ''Non-Diabetic'') bin)))"

text \<open>\<^verbatim>\<open>gen_health_prep\<close> (lines 68 to 88).\<close>

definition gen_health_prep ::
  "'a survey_df list \<Rightarrow> ref \<Rightarrow> string \<Rightarrow> (error + ref) \<times> 'a survey_df list" where
  "gen_health_prep st qualitative_data diab_status =
     (let st1 = set_Has_Diabetes st qualitative_data
                  (series_astype_bool (Diabetes_binary (st ! qualitative_data)))
      in case series_apply gen_hlth_label (GenHlth (st1 ! qualitative_data)) of
           Inl e \<Rightarrow> (Inl e, st1)
         | Inr assessment \<Rightarrow>
             (let st2 = set_General_Health_Assessment st1 qualitative_data assessment;
                  st3 = set_has_diabetes_human_readable st2 qualitative_data
                          (map (\<lambda>x. if x = Some 1 then ''Diabetic'' else ''Non-Diabetic'')
                             (Diabetes_binary (st2 ! qualitative_data)))
              in case applicable (st3 ! qualitative_data) diab_status of
                   Inl e \<Rightarrow> (Inl e, st3)
                 | Inr applicable_qual_data \<Rightarrow>
                     (case alloc st3 applicable_qual_data of (r, st4) \<Rightarrow> (Inr r, st4))))"

text \<open>
  Lines 173 and 174 of the page: the frame prepared by \<^verbatim>\<open>diabetic_bmi_prep\<close>, then its rows
  with \<^verbatim>\<open>BMI <= max_bmi\<close> as a new frame.
\<close>

definition prepared_diabetes ::
  "'a survey_df list \<Rightarrow> ref \<Rightarrow> int \<Rightarrow> (error + ref) \<times> 'a survey_df list" where
  "prepared_diabetes st diabetes max_bmi =
     (case diabetic_bmi_prep st diabetes of
        (Inl e, st1) \<Rightarrow> (Inl e, st1)
      | (Inr prepared, st1) \<Rightarrow>
          (case alloc st1 (survey_getitem_mask (st1 ! prepared)
                            (series_le (BMI (st1 ! prepared)) (of_int max_bmi))) of
             (r, st2) \<Rightarrow> (Inr r, st2)))"

section \<open>Sequences of calls\<close>

text \<open>
  The page calls the three preparation functions on the one survey table that
  \<^verbatim>\<open>load_data\<close> keeps (lines 145, 173 and 217), again at every interaction. A sequence of
  such calls is a list; each call goes on from the store the one before it left. The
  loaded columns of a frame are the index and the columns read from the file.
\<close>

definition loaded_columns ::
  "'a survey_df \<Rightarrow>
     nat list \<times> float64 list \<times> float64 list \<times> float64 list \<times> float64 list \<times> 'a list" where
  "loaded_columns df =
     (s_index df, Diabetes_binary df, Income df, GenHlth df, BMI df, s_other df)"

datatype call = Call_bmi_prep | Call_salary_prep string | Call_gen_health_prep string

fun after_call :: "'a survey_df list \<Rightarrow> ref \<Rightarrow> call \<Rightarrow> 'a survey_df list" where
  "after_call st diabetes Call_bmi_prep = snd (diabetic_bmi_prep st diabetes)"
| "after_call st diabetes (Call_salary_prep status) = snd (diabetic_salary_prep st diabetes status)"
| "after_call st diabetes (Call_gen_health_prep status) = snd (gen_health_prep st diabetes status)"

fun after_calls :: "'a survey_df list \<Rightarrow> ref \<Rightarrow> call list \<Rightarrow> 'a survey_df list" where
  "after_calls st diabetes [] = st"
| "after_calls st diabetes (c # cs) = after_calls (after_call st diabetes c) diabetes cs"

section \<open>Example tables\<close>

text \<open>
  Small tables on which the statements below are evaluated. The survey table holds the three
  respondents of the scenario of the specification; the index of the trip table has gaps,
  as the loader leaves them when it drops rows without pickup coordinates.
\<close>

definition example_trips :: "unit taxi_df" where
  "example_trips =
     \<lparr>t_index = [0, 2, 3, 5, 6, 9],
      Trip_Miles = [Some (19 / 2), Some 10, Some 9, Some (89 / 10), Some (101 / 10), None],
      t_other = [(), (), (), (), (), ()]\<rparr>"

definition example_survey :: "unit survey_df" where
  "example_survey =
     \<lparr>s_index = [0, 1, 2], Diabetes_binary = [Some 1, Some 0, Some 1],
      Income = [Some 3, Some 3, Some 3], GenHlth = [Some 2, Some 4, Some 2],
      BMI = [Some 30, Some 25, Some 31], s_other = [(), (), ()],
      Has_Diabetes = None, Has_Diabetes_Bin = None, Diabetic_Status = None,
      General_Health_Assessment = None, has_diabetes_human_readable = None\<rparr>"

text \<open>
  Two respondents; the one without diabetes has the income code 98, which is not a key of
  the income dict.
\<close>

definition unknown_income_survey :: "unit survey_df" where
  "unknown_income_survey =
     \<lparr>s_index = [0, 1], Diabetes_binary = [Some 1, Some 0], Income = [Some 3, Some 98],
      GenHlth = [Some 2, Some 3], BMI = [Some 30, Some 27], s_other = [(), ()],
      Has_Diabetes = None, Has_Diabetes_Bin = None, Diabetic_Status = None,
      General_Health_Assessment = None, has_diabetes_human_readable = None\<rparr>"




section \<open>Code maps\<close>

lemma income_code_to_text_dom:
  "dom income_code_to_text = {1, 2, 3, 4, 5, 6, 7, 8, 77, 99}"
  by (auto simp: income_code_to_text_def split: if_splits)

lemma gen_hlth_mapping_dom: "dom gen_hlth_mapping = {1, 2, 3, 4, 5, 7, 9}"
  by (auto simp: gen_hlth_mapping_def split: if_splits)

text \<open>
  C4. Each dict is defined exactly on the codes of its field (income: 1 to 8, 77 and 99;
  general health: 1 to 5, 7 and 9), and the lookup of each of these codes returns the label
  written in the source; income code 1 is \<open>Less than $10,000\<close> and general-health code 3
  is \<open>Good\<close>.
\<close>

theorem code_maps_lookup:
  "dom income_code_to_text = {1..8} \<union> {77, 99}
   \<and> dom gen_hlth_mapping = {1..5} \<union> {7, 9}
   \<and> dict_getitem income_code_to_text 1 = Inr ''Less than $10,000''
   \<and> dict_getitem income_code_to_text 2 = Inr ''$10,000 - $15,000''
   \<and> dict_getitem income_code_to_text 3 = Inr ''$15,000 - $20,000''
   \<and> dict_getitem income_code_to_text 4 = Inr ''$20,000 - $25,000''
   \<and> dict_getitem income_code_to_text 5 = Inr ''$25,000 - $35,000''
   \<and> dict_getitem income_code_to_text 6 = Inr ''$35,000 - $50,000''
   \<and> dict_getitem income_code_to_text 7 = Inr ''$50,000 - $75,000''
   \<and> dict_getitem income_code_to_text 8 = Inr ''$75,000 or more''
   \<and> dict_getitem income_code_to_text 77 =
         Inr (''Don'' @ [CHR 0xC3, CHR 0xA2, CHR 0xE2, CHR 0x82, CHR 0xAC, CHR 0xE2, CHR 0x84, CHR 0xA2]
              @ ''t know/Not sure'')
   \<and> dict_getitem income_code_to_text 99 = Inr ''Refused''
   \<and> dict_getitem gen_hlth_mapping 1 = Inr ''Excellent''
   \<and> dict_getitem gen_hlth_mapping 2 = Inr ''Very Good''
   \<and> dict_getitem gen_hlth_mapping 3 = Inr ''Good''
   \<and> dict_getitem gen_hlth_mapping 4 = Inr ''Fair''
   \<and> dict_getitem gen_hlth_mapping 5 = Inr ''Poor''
   \<and> dict_getitem gen_hlth_mapping 7 = Inr (''Don'' @ [CHR 0x27] @ ''t know / Not Sure'')
   \<and> dict_getitem gen_hlth_mapping 9 = Inr ''Refused''"
proof -
  have "dom income_code_to_text = {1..8} \<union> {77, 99}"
    by (auto simp: income_code_to_text_dom)
  moreover have "dom gen_hlth_mapping = {1..5} \<union> {7, 9}"
    by (auto simp: gen_hlth_mapping_dom)
  ultimately show ?thesis
    by (simp add: dict_getitem_def income_code_to_text_def gen_hlth_mapping_def)
qed

section \<open>Boolean indexing and rows\<close>

lemma bool_index_Nil [simp]: "bool_index xs [] = []"
  by (cases xs) simp_all

lemma bool_index_map: "bool_index (map f xs) m = map f (bool_index xs m)"
  by (induction xs m rule: bool_index.induct) simp_all

lemma bool_index_zip: "bool_index (zip xs ys) m = zip (bool_index xs m) (bool_index ys m)"
proof (induction m arbitrary: xs ys)
  case Nil
  then show ?case by simp
next
  case (Cons b m)
  show ?case
  proof (cases xs)
    case Nil
    then show ?thesis by simp
  next
    case xs: (Cons x xs')
    show ?thesis
    proof (cases ys)
      case Nil
      then show ?thesis by simp
    next
      case (Cons y ys')
      with xs Cons.IH show ?thesis by simp
    qed
  qed
qed

text \<open>A mask computed from a column selects the rows whose entry in that column passes.\<close>

lemma bool_index_filter:
  "map f zs = take (length zs) xs \<Longrightarrow> bool_index zs (map P xs) = filter (\<lambda>z. P (f z)) zs"
proof (induction zs arbitrary: xs)
  case Nil
  then show ?case by simp
next
  case (Cons z zs)
  then obtain x xs' where xs: "xs = x # xs'" by (cases xs) auto
  with Cons.prems have "x = f z" and "map f zs = take (length zs) xs'" by auto
  with Cons.IH xs show ?case by simp
qed

lemma trip_rows_mask: "trip_rows (taxi_getitem_mask df m) = bool_index (trip_rows df) m"
  by (simp add: trip_rows_def taxi_getitem_mask_def bool_index_zip bool_index_map)

lemma survey_rows_mask: "survey_rows (survey_getitem_mask df m) = bool_index (survey_rows df) m"
  by (simp add: survey_rows_def survey_getitem_mask_def bool_index_zip bool_index_map)

lemma zip_col_fst: "map (\<lambda>p. fst p) (zip xs ys) = take (length (zip xs ys)) xs"
  by (simp add: map_fst_zip_take)

lemma zip_col_snd:
  assumes "map g ys = take (length ys) c"
  shows "map (\<lambda>p. g (snd p)) (zip xs ys) = take (length (zip xs ys)) c"
proof -
  let ?n = "length (zip xs ys)"
  have "map (\<lambda>p. g (snd p)) (zip xs ys) = map g (map snd (zip xs ys))"
    by simp
  also have "map snd (zip xs ys) = take ?n ys"
    by (simp add: map_snd_zip_take)
  also have "map g (take ?n ys) = take ?n (map g ys)"
    by (rule take_map [symmetric])
  also have "\<dots> = take ?n (take (length ys) c)"
    by (simp only: assms)
  also have "\<dots> = take ?n c"
    by (simp add: min_def)
  finally show ?thesis .
qed

lemma map_trip_miles:
  "map trip_miles (trip_rows df) = take (length (trip_rows df)) (Trip_Miles df)"
  unfolding trip_rows_def
  by (simp add: case_prod_unfold comp_def del: length_zip) (intro zip_col_snd zip_col_fst)

lemma map_row_diabetes:
  "map row_diabetes (survey_rows df) = take (length (survey_rows df)) (Diabetes_binary df)"
  unfolding survey_rows_def
  by (simp add: case_prod_unfold comp_def del: length_zip) (intro zip_col_snd zip_col_fst)

lemma map_row_income:
  "map row_income (survey_rows df) = take (length (survey_rows df)) (Income df)"
  unfolding survey_rows_def
  by (simp add: case_prod_unfold comp_def del: length_zip) (intro zip_col_snd zip_col_fst)

lemma map_row_bmi:
  "map row_bmi (survey_rows df) = take (length (survey_rows df)) (BMI df)"
  unfolding survey_rows_def
  by (simp add: case_prod_unfold comp_def del: length_zip) (intro zip_col_snd zip_col_fst)

lemma trip_rows_between:
  "trip_rows (taxi_getitem_mask df (series_between (Trip_Miles df) lo hi)) =
     filter (\<lambda>r. case trip_miles r of None \<Rightarrow> False | Some d \<Rightarrow> lo \<le> d \<and> d \<le> hi)
       (trip_rows df)"
  by (simp add: trip_rows_mask series_between_def bool_index_filter [OF map_trip_miles])

lemma applicable_other:
  "diab_status \<noteq> ''True'' \<Longrightarrow> applicable df diab_status = applicable df ''False''"
  by (simp add: applicable_def)

section \<open>Lookups, column assignment and partitions\<close>

lemma series_astype_bool_eq: "series_astype_bool s = map (\<lambda>x. x \<noteq> Some 0) s"
  by (simp add: series_astype_bool_def split: option.splits)

lemma survey_rows_derived [simp]:
  "survey_rows (df\<lparr>Has_Diabetes := a\<rparr>) = survey_rows df"
  "survey_rows (df\<lparr>Has_Diabetes_Bin := b\<rparr>) = survey_rows df"
  "survey_rows (df\<lparr>Diabetic_Status := c\<rparr>) = survey_rows df"
  "survey_rows (df\<lparr>General_Health_Assessment := d\<rparr>) = survey_rows df"
  "survey_rows (df\<lparr>has_diabetes_human_readable := e\<rparr>) = survey_rows df"
  by (simp_all add: survey_rows_def)

text \<open>
  The partition of a flag: the rows whose indicator is not zero for \<open>True\<close>, the rows whose
  indicator is zero for anything else.
\<close>

lemma applicable_rows:
  assumes "Has_Diabetes df = Some (series_astype_bool (Diabetes_binary df))"
  shows "\<exists>p. applicable df flag = Inr p
           \<and> p = survey_getitem_mask df
                   (if flag = ''True'' then series_astype_bool (Diabetes_binary df)
                    else series_invert (series_astype_bool (Diabetes_binary df)))
           \<and> survey_rows p =
               filter (\<lambda>rec. (row_diabetes rec \<noteq> Some 0) = (flag = ''True'')) (survey_rows df)"
proof (cases "flag = ''True''")
  case True
  have "bool_index (survey_rows df) (map (\<lambda>x. x \<noteq> Some 0) (Diabetes_binary df)) =
          filter (\<lambda>rec. row_diabetes rec \<noteq> Some 0) (survey_rows df)"
    by (rule bool_index_filter [OF map_row_diabetes])
  with True assms show ?thesis
    by (simp add: applicable_def getitem_column_def survey_rows_mask series_astype_bool_eq)
next
  case False
  have "bool_index (survey_rows df) (map (\<lambda>x. x = Some 0) (Diabetes_binary df)) =
          filter (\<lambda>rec. row_diabetes rec = Some 0) (survey_rows df)"
    by (rule bool_index_filter [OF map_row_diabetes])
  with False assms show ?thesis
    by (simp add: applicable_def getitem_column_def survey_rows_mask series_astype_bool_eq
        series_invert_def comp_def)
qed

text \<open>\<^verbatim>\<open>apply\<close> returns when the function returns on every entry, and fails with it.\<close>

lemma series_apply_Inr: "series_apply f xs = Inr ys \<Longrightarrow> map f xs = map Inr ys"
  by (induction xs arbitrary: ys) (auto split: sum.splits)

lemma series_apply_total:
  "\<forall>x \<in> set xs. \<exists>y. f x = Inr y \<Longrightarrow> \<exists>ys. series_apply f xs = Inr ys"
  by (induction xs) (auto split: sum.splits)

lemma series_apply_Inl:
  "series_apply f xs = Inl e \<Longrightarrow> \<exists>x \<in> set xs. f x = Inl e"
  by (induction xs) (auto split: sum.splits)

lemma series_apply_fails:
  assumes "x \<in> set xs" and "f x = Inl e"
  shows "\<exists>e'. series_apply f xs = Inl e'"
proof (cases "series_apply f xs")
  case (Inl e')
  then show ?thesis by simp
next
  case (Inr ys)
  from series_apply_Inr [OF this] assms have "Inl e \<in> set (map Inr ys)"
    by (metis image_eqI list.set_map)
  then show ?thesis by auto
qed

text \<open>The two lookups, entry by entry.\<close>

lemma gen_hlth_label_Inr:
  "gen_hlth_label x = Inr l \<longleftrightarrow> (\<exists>v. x = Some v \<and> gen_hlth_mapping (py_trunc v) = Some l)"
  by (cases x) (auto simp: gen_hlth_label_def py_int_def dict_getitem_def split: option.splits)

lemma gen_hlth_label_Inl:
  "gen_hlth_label x = Inl e \<longleftrightarrow>
     x = None \<and> e = ValueError_nan
     \<or> (\<exists>v. x = Some v \<and> gen_hlth_mapping (py_trunc v) = None
            \<and> e = KeyError_code (of_int (py_trunc v)))"
  by (cases x) (auto simp: gen_hlth_label_def py_int_def dict_getitem_def split: option.splits)

lemma income_bracket_Inr:
  "income_bracket v = Inr l \<longleftrightarrow> v = of_int \<lfloor>v\<rfloor> \<and> income_code_to_text \<lfloor>v\<rfloor> = Some l"
  by (auto simp: income_bracket_def dict_getitem_float_def dict_getitem_def split: option.splits)

lemma income_key_iff:
  "v \<in> real_of_int ` dom income_code_to_text \<longleftrightarrow>
     v = of_int \<lfloor>v\<rfloor> \<and> income_code_to_text \<lfloor>v\<rfloor> \<noteq> None"
  by (auto simp: dom_def image_iff)

lemma income_bracket_Inl:
  "income_bracket v = Inl e \<longleftrightarrow>
     v \<notin> real_of_int ` dom income_code_to_text \<and> e = KeyError_code v"
  unfolding income_key_iff
  by (auto simp: income_bracket_def dict_getitem_float_def dict_getitem_def split: option.splits)

lemma income_bracket_total:
  "v \<in> real_of_int ` dom income_code_to_text \<Longrightarrow> \<exists>l. income_bracket v = Inr l"
  unfolding income_key_iff by (auto simp: income_bracket_Inr)

lemma diabetic_bmi_prep_result:
  "r < length st \<Longrightarrow>
     diabetic_bmi_prep st r =
       (Inr r,
        st[r := (st ! r)\<lparr>Has_Diabetes_Bin := Some (series_astype_bool (Diabetes_binary (st ! r))),
                         Diabetic_Status :=
                           Some (map (\<lambda>x. if x then ''Diabetic'' else ''Non-Diabetic'')
                                   (series_astype_bool (Diabetes_binary (st ! r))))\<rparr>])"
  by (simp add: diabetic_bmi_prep_def set_Has_Diabetes_Bin_def set_Diabetic_Status_def
      getitem_column_def)

lemma survey_rows_le:
  "survey_rows (survey_getitem_mask df (series_le (BMI df) c)) =
     filter (\<lambda>rec. case row_bmi rec of None \<Rightarrow> False | Some b \<Rightarrow> b \<le> c) (survey_rows df)"
  by (simp add: survey_rows_mask series_le_def bool_index_filter [OF map_row_bmi])

lemma gen_health_prep_result:
  assumes "q < length st"
    and "series_apply gen_hlth_label (GenHlth (st ! q)) = Inr labels"
  shows "gen_health_prep st q flag =
     (Inr (length st),
      st[q := (st ! q)\<lparr>Has_Diabetes := Some (series_astype_bool (Diabetes_binary (st ! q))),
                       General_Health_Assessment := Some labels,
                       has_diabetes_human_readable :=
                         Some (map (\<lambda>x. if x = Some 1 then ''Diabetic'' else ''Non-Diabetic'')
                                 (Diabetes_binary (st ! q)))\<rparr>]
      @ [survey_getitem_mask
           ((st ! q)\<lparr>Has_Diabetes := Some (series_astype_bool (Diabetes_binary (st ! q))),
                     General_Health_Assessment := Some labels,
                     has_diabetes_human_readable :=
                       Some (map (\<lambda>x. if x = Some 1 then ''Diabetic'' else ''Non-Diabetic'')
                               (Diabetes_binary (st ! q)))\<rparr>)
           (if flag = ''True'' then series_astype_bool (Diabetes_binary (st ! q))
            else series_invert (series_astype_bool (Diabetes_binary (st ! q))))])"
  using assms
  by (simp add: gen_health_prep_def set_Has_Diabetes_def set_General_Health_Assessment_def
      set_has_diabetes_human_readable_def applicable_def getitem_column_def alloc_def)

lemma gen_health_prep_error:
  assumes "q < length st"
    and "series_apply gen_hlth_label (GenHlth (st ! q)) = Inl e"
  shows "gen_health_prep st q flag =
     (Inl e, st[q := (st ! q)\<lparr>Has_Diabetes := Some (series_astype_bool (Diabetes_binary (st ! q)))\<rparr>])"
  using assms by (simp add: gen_health_prep_def set_Has_Diabetes_def)

lemma survey_rows_example:
  "survey_rows example_survey =
     [\<lparr>row_label = 0, row_diabetes = Some 1, row_income = Some 3, row_genHlth = Some 2,
       row_bmi = Some 30, row_other = ()\<rparr>,
      \<lparr>row_label = 1, row_diabetes = Some 0, row_income = Some 3, row_genHlth = Some 4,
       row_bmi = Some 25, row_other = ()\<rparr>,
      \<lparr>row_label = 2, row_diabetes = Some 1, row_income = Some 3, row_genHlth = Some 2,
       row_bmi = Some 31, row_other = ()\<rparr>]"
  by (simp add: survey_rows_def example_survey_def)

section \<open>Well-formed frames and counting\<close>

lemma length_bool_index_cong:
  "length xs = length ys \<Longrightarrow> length (bool_index xs m) = length (bool_index ys m)"
proof (induction m arbitrary: xs ys)
  case Nil
  then show ?case by simp
next
  case (Cons b m)
  show ?case
  proof (cases xs)
    case Nil
    with Cons.prems show ?thesis by simp
  next
    case xs: (Cons x xs')
    with Cons.prems obtain y ys' where ys: "ys = y # ys'" and "length xs' = length ys'"
      by (cases ys) auto
    with Cons.IH xs show ?thesis by simp
  qed
qed

lemma opt_len_mask:
  assumes "opt_len (length xs) c"
  shows "opt_len (length (bool_index xs m)) (map_option (\<lambda>c. bool_index c m) c)"
proof (cases c)
  case None
  then show ?thesis by (simp add: opt_len_def)
next
  case (Some ys)
  with assms have "length ys = length xs" by (simp add: opt_len_def)
  from length_bool_index_cong [OF this] Some show ?thesis by (simp add: opt_len_def)
qed

lemma wf_survey_mask:
  assumes "wf_survey df"
  shows "wf_survey (survey_getitem_mask df m)"
proof -
  let ?n = "length (s_index df)"
  let ?k = "length (bool_index (s_index df) m)"
  from assms have len: "length (Diabetes_binary df) = ?n" "length (Income df) = ?n"
    "length (GenHlth df) = ?n" "length (BMI df) = ?n" "length (s_other df) = ?n"
    and opt: "opt_len ?n (Has_Diabetes df)" "opt_len ?n (Has_Diabetes_Bin df)"
    "opt_len ?n (Diabetic_Status df)" "opt_len ?n (General_Health_Assessment df)"
    "opt_len ?n (has_diabetes_human_readable df)"
    by (simp_all add: wf_survey_def Let_def)
  have "length (bool_index (Diabetes_binary df) m) = ?k"
    "length (bool_index (Income df) m) = ?k"
    "length (bool_index (GenHlth df) m) = ?k"
    "length (bool_index (BMI df) m) = ?k"
    "length (bool_index (s_other df) m) = ?k"
    by (rule length_bool_index_cong, rule len)+
  moreover note opt [THEN opt_len_mask, of m]
  ultimately show ?thesis
    unfolding wf_survey_def survey_getitem_mask_def Let_def by simp
qed

lemma wf_survey_rows:
  assumes "wf_survey df"
  shows "length (survey_rows df) = length (s_index df)"
    and "map row_diabetes (survey_rows df) = Diabetes_binary df"
    and "map row_income (survey_rows df) = Income df"
proof -
  from assms show len: "length (survey_rows df) = length (s_index df)"
    by (simp add: survey_rows_def wf_survey_def Let_def)
  from assms len show "map row_diabetes (survey_rows df) = Diabetes_binary df"
    by (simp add: map_row_diabetes wf_survey_def Let_def)
  from assms len show "map row_income (survey_rows df) = Income df"
    by (simp add: map_row_income wf_survey_def Let_def)
qed

lemma groupby_size_keys: "map fst (groupby_size ks) = sort (remdups ks)"
  by (simp add: groupby_size_def comp_def)

lemma groupby_size_sum: "sum_list (map snd (groupby_size ks)) = length ks"
proof -
  have "sum_list (map snd (groupby_size ks)) = sum_list (map (count_list ks) (sort (remdups ks)))"
    by (simp add: groupby_size_def comp_def)
  also have "\<dots> = sum (count_list ks) (set (sort (remdups ks)))"
    by (rule sum_list_distinct_conv_sum_set) simp
  also have "\<dots> = length ks"
    by (simp add: sum_count_set)
  finally show ?thesis .
qed


lemma groupby_size_codes:
  "set (map (\<lambda>g. fst (fst g)) (groupby_size ks)) = fst ` set ks"
  by (auto simp: groupby_size_def comp_def)

text \<open>Keys that all have the same second component: the groups are those of the first.\<close>

lemma sort_remdups_pair:
  "sort (remdups (map (\<lambda>v. (v, b)) (xs :: real list))) = map (\<lambda>v. (v, b :: bool)) (sort (remdups xs))"
proof (rule properties_for_sort)
  have "remdups (map (\<lambda>v. (v, b)) xs) = map (\<lambda>v. (v, b)) (remdups xs)"
    by (induction xs) auto
  then show "mset (map (\<lambda>v. (v, b)) (sort (remdups xs))) = mset (remdups (map (\<lambda>v. (v, b)) xs))"
    by simp
  have "sorted (sort (remdups xs))"
    by simp
  then show "sorted (map (\<lambda>v. (v, b)) (sort (remdups xs)))"
    by (simp add: sorted_map sorted_wrt_iff_nth_less)
qed

lemma count_list_pair: "count_list (map (\<lambda>v. (v, b)) xs) (v, b) = count_list xs v"
  by (induction xs) auto

lemma groupby_size_pair:
  "groupby_size (map (\<lambda>v. (v, b)) (xs :: real list)) =
     map (\<lambda>v. ((v, b :: bool), count_list xs v)) (sort (remdups xs))"
  by (simp add: groupby_size_def sort_remdups_pair comp_def count_list_pair)

text \<open>Rows with a missing key do not reach the groups.\<close>

lemma dropna_keys_map:
  "dropna_keys (map (\<lambda>x. (f x, g x)) xs) =
     map (\<lambda>x. (the (f x), g x)) (filter (\<lambda>x. f x \<noteq> None) xs)"
proof (induction xs)
  case Nil
  then show ?case by simp
next
  case (Cons x xs)
  then show ?case by (cases "f x") simp_all
qed

lemma diabetes_counts_value:
  assumes "Has_Diabetes p = Some h"
    and "diabetes_counts p = Inr c"
  shows "c_index c = [0..<length (groupby_size (dropna_keys (zip (Income p) h)))]
         \<and> c_Income c = map (\<lambda>g. fst (fst g)) (groupby_size (dropna_keys (zip (Income p) h)))
         \<and> c_Has_Diabetes c =
             map (\<lambda>g. snd (fst g)) (groupby_size (dropna_keys (zip (Income p) h)))
         \<and> Number_of_Individuals c = map snd (groupby_size (dropna_keys (zip (Income p) h)))
         \<and> map income_bracket (c_Income c) = map Inr (Income_Bracket c)"
proof -
  let ?groups = "groupby_size (dropna_keys (zip (Income p) h))"
  from assms obtain brackets
    where app: "series_apply income_bracket (map (\<lambda>g. fst (fst g)) ?groups) = Inr brackets"
      and c: "c = \<lparr>c_index = [0..<length ?groups], c_Income = map (\<lambda>g. fst (fst g)) ?groups,
           c_Has_Diabetes = map (\<lambda>g. snd (fst g)) ?groups,
           Number_of_Individuals = map snd ?groups, Income_Bracket = brackets\<rparr>"
    by (auto simp: diabetes_counts_def getitem_column_def Let_def split: sum.splits)
  from series_apply_Inr [OF app] c show ?thesis
    by simp
qed

lemma diabetes_counts_Inr:
  assumes "Has_Diabetes p = Some h"
    and "fst ` set (dropna_keys (zip (Income p) h)) \<subseteq> real_of_int ` dom income_code_to_text"
  shows "\<exists>c. diabetes_counts p = Inr c
           \<and> sum_list (Number_of_Individuals c) = length (dropna_keys (zip (Income p) h))"
proof -
  let ?groups = "groupby_size (dropna_keys (zip (Income p) h))"
  from assms(2)
  have "set (map (\<lambda>g. fst (fst g)) ?groups) \<subseteq> real_of_int ` dom income_code_to_text"
    unfolding groupby_size_codes .
  then have "\<forall>v \<in> set (map (\<lambda>g. fst (fst g)) ?groups). \<exists>l. income_bracket v = Inr l"
    using income_bracket_total by blast
  from series_apply_total [OF this] obtain brackets
    where "series_apply income_bracket (map (\<lambda>g. fst (fst g)) ?groups) = Inr brackets"
    by blast
  with assms(1) have "diabetes_counts p =
      Inr \<lparr>c_index = [0..<length ?groups], c_Income = map (\<lambda>g. fst (fst g)) ?groups,
           c_Has_Diabetes = map (\<lambda>g. snd (fst g)) ?groups,
           Number_of_Individuals = map snd ?groups, Income_Bracket = brackets\<rparr>"
    by (simp add: diabetes_counts_def getitem_column_def Let_def)
  then show ?thesis
    by (simp add: groupby_size_sum)
qed

lemma diabetes_counts_Inl:
  assumes "Has_Diabetes p = Some h"
    and "\<not> fst ` set (dropna_keys (zip (Income p) h)) \<subseteq> real_of_int ` dom income_code_to_text"
  shows "\<exists>k. diabetes_counts p = Inl (KeyError_code k)
           \<and> k \<in> fst ` set (dropna_keys (zip (Income p) h))
           \<and> k \<notin> real_of_int ` dom income_code_to_text"
proof -
  let ?groups = "groupby_size (dropna_keys (zip (Income p) h))"
  let ?codes = "map (\<lambda>g. fst (fst g)) ?groups"
  from assms(2) have "\<not> set ?codes \<subseteq> real_of_int ` dom income_code_to_text"
    unfolding groupby_size_codes .
  then obtain v where "v \<in> set ?codes" and "v \<notin> real_of_int ` dom income_code_to_text"
    by blast
  then have "income_bracket v = Inl (KeyError_code v)"
    by (simp add: income_bracket_Inl)
  from series_apply_fails [where f = income_bracket, OF \<open>v \<in> set ?codes\<close> this] obtain e
    where app: "series_apply income_bracket ?codes = Inl e"
    by blast
  from series_apply_Inl [OF this] obtain k
    where "k \<in> set ?codes" and "income_bracket k = Inl e"
    by blast
  then have k: "k \<in> fst ` set (dropna_keys (zip (Income p) h))"
    "k \<notin> real_of_int ` dom income_code_to_text" "e = KeyError_code k"
    unfolding groupby_size_codes income_bracket_Inl by blast+
  from app assms(1) have "diabetes_counts p = Inl e"
    by (simp add: diabetes_counts_def getitem_column_def Let_def)
  with k show ?thesis
    by blast
qed


text \<open>The keys counted for a partition, in terms of its rows.\<close>

lemma partition_keys:
  assumes "wf_survey df"
  shows "zip (Income (survey_getitem_mask df m))
             (bool_index (series_astype_bool (Diabetes_binary df)) m) =
         map (\<lambda>rec. (row_income rec, row_diabetes rec \<noteq> Some 0))
           (survey_rows (survey_getitem_mask df m))"
proof -
  let ?p = "survey_getitem_mask df m"
  from assms have wf: "wf_survey ?p"
    by (rule wf_survey_mask)
  have "bool_index (series_astype_bool (Diabetes_binary df)) m =
      map (\<lambda>d. d \<noteq> Some 0) (Diabetes_binary ?p)"
    by (simp add: series_astype_bool_eq bool_index_map survey_getitem_mask_def)
  also have "\<dots> = map (\<lambda>rec. row_diabetes rec \<noteq> Some 0) (survey_rows ?p)"
    by (simp only: wf_survey_rows(2) [OF wf, symmetric] map_map comp_def)
  finally have h: "bool_index (series_astype_bool (Diabetes_binary df)) m =
      map (\<lambda>rec. row_diabetes rec \<noteq> Some 0) (survey_rows ?p)" .
  have i: "Income ?p = map row_income (survey_rows ?p)"
    by (simp only: wf_survey_rows(3) [OF wf])
  show ?thesis
    by (subst h, subst i) (simp add: zip_map_map zip_same_conv_map)
qed

lemma wf_survey_Has_Diabetes:
  "wf_survey df \<Longrightarrow>
     wf_survey (df\<lparr>Has_Diabetes := Some (series_astype_bool (Diabetes_binary df))\<rparr>)"
  by (simp add: wf_survey_def Let_def opt_len_def series_astype_bool_def)

text \<open>
  What \<^verbatim>\<open>diabetic_salary_prep\<close> does on a well-formed table: it assigns the column
  \<^verbatim>\<open>Has Diabetes\<close>, and counts the income codes that are not missing among the rows on
  the side of the flag.
\<close>

lemma diabetic_salary_prep_partition:
  assumes "r < length st" and "wf_survey (st ! r)"
  shows "\<exists>p h. applicable
                 ((st ! r)\<lparr>Has_Diabetes := Some (series_astype_bool (Diabetes_binary (st ! r)))\<rparr>)
                 flag = Inr p
           \<and> diabetic_salary_prep st r flag =
               (diabetes_counts p,
                st[r := (st ! r)\<lparr>Has_Diabetes :=
                                  Some (series_astype_bool (Diabetes_binary (st ! r)))\<rparr>])
           \<and> survey_rows p =
               filter (\<lambda>rec. (row_diabetes rec \<noteq> Some 0) = (flag = ''True''))
                 (survey_rows (st ! r))
           \<and> Has_Diabetes p = Some h
           \<and> dropna_keys (zip (Income p) h) =
               map (\<lambda>v. (v, flag = ''True'')) (List.map_filter row_income (survey_rows p))"
proof -
  let ?has = "series_astype_bool (Diabetes_binary (st ! r))"
  let ?df1 = "(st ! r)\<lparr>Has_Diabetes := Some ?has\<rparr>"
  let ?m = "if flag = ''True'' then ?has else series_invert ?has"
  let ?p = "survey_getitem_mask ?df1 ?m"
  have hd: "Has_Diabetes ?df1 = Some (series_astype_bool (Diabetes_binary ?df1))"
    by simp
  from applicable_rows [OF hd, of flag]
  have app: "applicable ?df1 flag = Inr ?p"
    and rows: "survey_rows ?p =
      filter (\<lambda>rec. (row_diabetes rec \<noteq> Some 0) = (flag = ''True'')) (survey_rows (st ! r))"
    by (cases "flag = ''True''"; simp)+
  from assms(1) app have call: "diabetic_salary_prep st r flag = (diabetes_counts ?p, st[r := ?df1])"
    by (simp add: diabetic_salary_prep_def set_Has_Diabetes_def)
  have hp: "Has_Diabetes ?p = Some (bool_index ?has ?m)"
    by (simp add: survey_getitem_mask_def)
  from partition_keys [OF wf_survey_Has_Diabetes [OF assms(2)], of ?m]
  have keys: "zip (Income ?p) (bool_index ?has ?m) =
      map (\<lambda>rec. (row_income rec, row_diabetes rec \<noteq> Some 0)) (survey_rows ?p)"
    by simp
  have sel: "(row_diabetes rec \<noteq> Some 0) = (flag = ''True'')" if "rec \<in> set (survey_rows ?p)"
    for rec
    using that unfolding rows by simp
  have "dropna_keys (zip (Income ?p) (bool_index ?has ?m)) =
      map (\<lambda>rec. (the (row_income rec), row_diabetes rec \<noteq> Some 0))
        (filter (\<lambda>rec. row_income rec \<noteq> None) (survey_rows ?p))"
    unfolding keys by (rule dropna_keys_map)
  also have "\<dots> = map (\<lambda>rec. (the (row_income rec), flag = ''True''))
        (filter (\<lambda>rec. row_income rec \<noteq> None) (survey_rows ?p))"
    by (rule map_cong [OF refl]) (simp add: sel)
  also have "\<dots> = map (\<lambda>v. (v, flag = ''True'')) (List.map_filter row_income (survey_rows ?p))"
    by (simp add: map_filter_def comp_def)
  finally have dk: "dropna_keys (zip (Income ?p) (bool_index ?has ?m)) =
      map (\<lambda>v. (v, flag = ''True'')) (List.map_filter row_income (survey_rows ?p))" .
  from app call rows hp dk show ?thesis
    by blast
qed

lemma survey_rows_income_subset:
  "row_income ` set (survey_rows df) \<subseteq> set (Income df)"
proof -
  have "row_income ` set (survey_rows df) = set (map row_income (survey_rows df))"
    by simp
  also have "\<dots> \<subseteq> set (Income df)"
    unfolding map_row_income by (rule set_take_subset)
  finally show ?thesis .
qed

lemma survey_rows_diabetes_subset:
  "row_diabetes ` set (survey_rows df) \<subseteq> set (Diabetes_binary df)"
proof -
  have "row_diabetes ` set (survey_rows df) = set (map row_diabetes (survey_rows df))"
    by simp
  also have "\<dots> \<subseteq> set (Diabetes_binary df)"
    unfolding map_row_diabetes by (rule set_take_subset)
  finally show ?thesis .
qed

lemma set_map_filter: "set (List.map_filter f xs) = {v. Some v \<in> f ` set xs}"
proof (induction xs)
  case Nil
  then show ?case by simp
next
  case (Cons x xs)
  then show ?case by (cases "f x") auto
qed

section \<open>Outcomes of the two aggregations\<close>

text \<open>
  The income codes that \<^verbatim>\<open>diabetic_salary_prep\<close> counts for a flag: those of the rows on
  the side of the flag, without the missing ones. The call returns when all of them are
  keys of the dict, and fails with the KeyError of one that is not otherwise.
\<close>

lemma diabetic_salary_prep_outcome:
  assumes "r < length st" and "wf_survey (st ! r)"
  shows "set (List.map_filter row_income
            (filter (\<lambda>rec. (row_diabetes rec \<noteq> Some 0) = (flag = ''True''))
               (survey_rows (st ! r))))
           \<subseteq> real_of_int ` dom income_code_to_text \<Longrightarrow>
         \<exists>c. fst (diabetic_salary_prep st r flag) = Inr c
           \<and> sum_list (Number_of_Individuals c) =
               length (List.map_filter row_income
                 (filter (\<lambda>rec. (row_diabetes rec \<noteq> Some 0) = (flag = ''True''))
                    (survey_rows (st ! r))))"
    and "\<not> set (List.map_filter row_income
            (filter (\<lambda>rec. (row_diabetes rec \<noteq> Some 0) = (flag = ''True''))
               (survey_rows (st ! r))))
           \<subseteq> real_of_int ` dom income_code_to_text \<Longrightarrow>
         \<exists>k. fst (diabetic_salary_prep st r flag) = Inl (KeyError_code k)
           \<and> k \<in> set (List.map_filter row_income
                 (filter (\<lambda>rec. (row_diabetes rec \<noteq> Some 0) = (flag = ''True''))
                    (survey_rows (st ! r))))
           \<and> k \<notin> real_of_int ` dom income_code_to_text"
proof -
  let ?incomes = "List.map_filter row_income
      (filter (\<lambda>rec. (row_diabetes rec \<noteq> Some 0) = (flag = ''True'')) (survey_rows (st ! r)))"
  from diabetic_salary_prep_partition [OF assms, of flag] obtain p h
    where call: "diabetic_salary_prep st r flag =
               (diabetes_counts p,
                st[r := (st ! r)\<lparr>Has_Diabetes :=
                                  Some (series_astype_bool (Diabetes_binary (st ! r)))\<rparr>])"
      and rows: "survey_rows p =
               filter (\<lambda>rec. (row_diabetes rec \<noteq> Some 0) = (flag = ''True''))
                 (survey_rows (st ! r))"
      and h: "Has_Diabetes p = Some h"
      and keys: "dropna_keys (zip (Income p) h) =
               map (\<lambda>v. (v, flag = ''True'')) (List.map_filter row_income (survey_rows p))"
    by blast
  have codes: "fst ` set (dropna_keys (zip (Income p) h)) = set ?incomes"
    unfolding keys rows by (simp add: image_image)
  have len: "length (dropna_keys (zip (Income p) h)) = length ?incomes"
    unfolding keys rows by simp
  {
    assume "set ?incomes \<subseteq> real_of_int ` dom income_code_to_text"
    then have "fst ` set (dropna_keys (zip (Income p) h)) \<subseteq> real_of_int ` dom income_code_to_text"
      unfolding codes .
    from diabetes_counts_Inr [OF h this] call len
    show "\<exists>c. fst (diabetic_salary_prep st r flag) = Inr c
           \<and> sum_list (Number_of_Individuals c) = length ?incomes"
      by auto
  }
  {
    assume "\<not> set ?incomes \<subseteq> real_of_int ` dom income_code_to_text"
    then have "\<not> fst ` set (dropna_keys (zip (Income p) h))
        \<subseteq> real_of_int ` dom income_code_to_text"
      unfolding codes .
    from diabetes_counts_Inl [OF h this] call
    show "\<exists>k. fst (diabetic_salary_prep st r flag) = Inl (KeyError_code k)
           \<and> k \<in> set ?incomes \<and> k \<notin> real_of_int ` dom income_code_to_text"
      unfolding codes by auto
  }
qed

text \<open>The result of \<^verbatim>\<open>diabetic_salary_prep\<close>, column by column, from the rows of the table.\<close>

lemma diabetic_salary_prep_value:
  assumes "r < length st" and "wf_survey (st ! r)"
    and "fst (diabetic_salary_prep st r flag) = Inr c"
  shows "c_Income c =
           sort (remdups (List.map_filter row_income
             (filter (\<lambda>rec. (row_diabetes rec \<noteq> Some 0) = (flag = ''True''))
                (survey_rows (st ! r)))))
         \<and> Number_of_Individuals c =
           map (count_list (List.map_filter row_income
                  (filter (\<lambda>rec. (row_diabetes rec \<noteq> Some 0) = (flag = ''True''))
                     (survey_rows (st ! r)))))
             (c_Income c)
         \<and> c_Has_Diabetes c = map (\<lambda>v. flag = ''True'') (c_Income c)
         \<and> c_index c = [0..<length (c_Income c)]"
proof -
  let ?incomes = "List.map_filter row_income
      (filter (\<lambda>rec. (row_diabetes rec \<noteq> Some 0) = (flag = ''True'')) (survey_rows (st ! r)))"
  from diabetic_salary_prep_partition [OF assms(1,2), of flag] obtain p h
    where call: "diabetic_salary_prep st r flag =
               (diabetes_counts p,
                st[r := (st ! r)\<lparr>Has_Diabetes :=
                                  Some (series_astype_bool (Diabetes_binary (st ! r)))\<rparr>])"
      and rows: "survey_rows p =
               filter (\<lambda>rec. (row_diabetes rec \<noteq> Some 0) = (flag = ''True''))
                 (survey_rows (st ! r))"
      and h: "Has_Diabetes p = Some h"
      and keys: "dropna_keys (zip (Income p) h) =
               map (\<lambda>v. (v, flag = ''True'')) (List.map_filter row_income (survey_rows p))"
    by blast
  from call assms(3) have c: "diabetes_counts p = Inr c"
    by simp
  have groups: "groupby_size (dropna_keys (zip (Income p) h)) =
      map (\<lambda>v. ((v, flag = ''True''), count_list ?incomes v)) (sort (remdups ?incomes))"
    unfolding keys rows by (rule groupby_size_pair)
  from diabetes_counts_value [OF h c] show ?thesis
    unfolding groups by (simp add: comp_def)
qed


lemma diabetic_salary_prep_store:
  "snd (diabetic_salary_prep st r flag) =
     st[r := (st ! r)\<lparr>Has_Diabetes := Some (series_astype_bool (Diabetes_binary (st ! r)))\<rparr>]"
  by (simp add: diabetic_salary_prep_def set_Has_Diabetes_def Let_def split: sum.splits)

text \<open>
  \<^verbatim>\<open>gen_health_prep\<close> returns when every general-health code of the table is present and
  its truncation is a key; otherwise it fails at the first code that is not.
\<close>

lemma gen_health_prep_returns:
  assumes "q < length st"
    and "\<forall>x \<in> set (GenHlth (st ! q)). \<exists>v. x = Some v \<and> py_trunc v \<in> dom gen_hlth_mapping"
  shows "\<exists>labels. series_apply gen_hlth_label (GenHlth (st ! q)) = Inr labels"
proof (rule series_apply_total, rule ballI)
  fix x assume "x \<in> set (GenHlth (st ! q))"
  with assms(2) obtain v l where "x = Some v" and "gen_hlth_mapping (py_trunc v) = Some l"
    by blast
  then show "\<exists>y. gen_hlth_label x = Inr y"
    by (auto simp: gen_hlth_label_Inr)
qed

lemma gen_health_prep_fails:
  assumes "q < length st"
    and "\<not> (\<forall>x \<in> set (GenHlth (st ! q)). \<exists>v. x = Some v \<and> py_trunc v \<in> dom gen_hlth_mapping)"
  shows "\<exists>e. gen_health_prep st q flag =
           (Inl e, st[q := (st ! q)\<lparr>Has_Diabetes :=
                                    Some (series_astype_bool (Diabetes_binary (st ! q)))\<rparr>])
           \<and> (e = ValueError_nan \<and> None \<in> set (GenHlth (st ! q))
               \<or> (\<exists>v. Some v \<in> set (GenHlth (st ! q)) \<and> py_trunc v \<notin> dom gen_hlth_mapping
                      \<and> e = KeyError_code (of_int (py_trunc v))))"
proof -
  from assms(2) obtain x where x: "x \<in> set (GenHlth (st ! q))"
    and bad: "\<not> (\<exists>v. x = Some v \<and> py_trunc v \<in> dom gen_hlth_mapping)"
    by blast
  have "\<exists>e. gen_hlth_label x = Inl e"
  proof (cases x)
    case None
    then show ?thesis by (simp add: gen_hlth_label_Inl)
  next
    case (Some v)
    with bad have "gen_hlth_mapping (py_trunc v) = None"
      by auto
    with Some show ?thesis by (simp add: gen_hlth_label_Inl)
  qed
  then obtain e0 where "gen_hlth_label x = Inl e0"
    by blast
  from series_apply_fails [where f = gen_hlth_label, OF x this] obtain e
    where app: "series_apply gen_hlth_label (GenHlth (st ! q)) = Inl e"
    by blast
  from series_apply_Inl [OF this] obtain y
    where "y \<in> set (GenHlth (st ! q))" and "gen_hlth_label y = Inl e"
    by blast
  then have "e = ValueError_nan \<and> None \<in> set (GenHlth (st ! q))
      \<or> (\<exists>v. Some v \<in> set (GenHlth (st ! q)) \<and> py_trunc v \<notin> dom gen_hlth_mapping
             \<and> e = KeyError_code (of_int (py_trunc v)))"
    unfolding gen_hlth_label_Inl by auto
  with gen_health_prep_error [OF assms(1) app, of flag] show ?thesis
    by blast
qed

lemma gen_health_prep_labels:
  assumes "q < length st"
    and "gen_health_prep st q flag = (Inr r, st')"
  shows "\<exists>labels. General_Health_Assessment (st' ! r) = Some labels
           \<and> map Some labels =
               map (\<lambda>x. Option.bind x (\<lambda>v. gen_hlth_mapping (py_trunc v))) (GenHlth (st' ! r))"
proof (cases "series_apply gen_hlth_label (GenHlth (st ! q))")
  case (Inl e)
  from gen_health_prep_error [OF assms(1) Inl, of flag] assms(2) show ?thesis
    by simp
next
  case (Inr all_labels)
  let ?has = "series_astype_bool (Diabetes_binary (st ! q))"
  let ?m = "if flag = ''True'' then ?has else series_invert ?has"
  let ?df3 = "(st ! q)\<lparr>Has_Diabetes := Some ?has, General_Health_Assessment := Some all_labels,
                   has_diabetes_human_readable :=
                     Some (map (\<lambda>x. if x = Some 1 then ''Diabetic'' else ''Non-Diabetic'')
                             (Diabetes_binary (st ! q)))\<rparr>"
  let ?res = "survey_getitem_mask ?df3 ?m"
  let ?code = "\<lambda>x. Option.bind x (\<lambda>v. gen_hlth_mapping (py_trunc v))"
  from gen_health_prep_result [OF assms(1) Inr, of flag] assms(2)
  have r: "r = length st" and st': "st' = st[q := ?df3] @ [?res]"
    by simp_all
  have res: "st' ! r = ?res"
    unfolding r st' by (simp add: nth_append)
  have gha: "General_Health_Assessment ?res = Some (bool_index all_labels ?m)"
    by (simp add: survey_getitem_mask_def)
  have all: "map Some all_labels = map ?code (GenHlth (st ! q))"
  proof (rule nth_equalityI)
    from series_apply_Inr [OF Inr] have "length (GenHlth (st ! q)) = length all_labels"
      by (metis length_map)
    then show "length (map Some all_labels) = length (map ?code (GenHlth (st ! q)))"
      by simp
  next
    fix i assume "i < length (map Some all_labels)"
    then have i: "i < length all_labels"
      by simp
    from series_apply_Inr [OF Inr] have len: "length (GenHlth (st ! q)) = length all_labels"
      by (metis length_map)
    from series_apply_Inr [OF Inr] i len
    have "gen_hlth_label (GenHlth (st ! q) ! i) = Inr (all_labels ! i)"
      by (metis nth_map)
    then have "?code (GenHlth (st ! q) ! i) = Some (all_labels ! i)"
      by (auto simp: gen_hlth_label_Inr)
    with i len show "map Some all_labels ! i = map ?code (GenHlth (st ! q)) ! i"
      by simp
  qed
  have "map Some (bool_index all_labels ?m) = bool_index (map Some all_labels) ?m"
    by (simp add: bool_index_map)
  also have "\<dots> = bool_index (map ?code (GenHlth (st ! q))) ?m"
    by (simp only: all)
  also have "\<dots> = map ?code (GenHlth ?res)"
    by (simp add: bool_index_map survey_getitem_mask_def)
  finally have "map Some (bool_index all_labels ?m) = map ?code (GenHlth ?res)" .
  with gha show ?thesis
    unfolding res by blast
qed

section \<open>The frame of the calls\<close>

lemma loaded_columns_derived [simp]:
  "loaded_columns (df\<lparr>Has_Diabetes := a\<rparr>) = loaded_columns df"
  "loaded_columns (df\<lparr>Has_Diabetes_Bin := b\<rparr>) = loaded_columns df"
  "loaded_columns (df\<lparr>Diabetic_Status := c\<rparr>) = loaded_columns df"
  "loaded_columns (df\<lparr>General_Health_Assessment := d\<rparr>) = loaded_columns df"
  "loaded_columns (df\<lparr>has_diabetes_human_readable := e\<rparr>) = loaded_columns df"
  by (simp_all add: loaded_columns_def)

lemma gen_health_prep_store:
  assumes "r < length st"
  shows "(\<exists>labels. take (length st) (snd (gen_health_prep st r flag)) =
            st[r := (st ! r)\<lparr>Has_Diabetes := Some (series_astype_bool (Diabetes_binary (st ! r))),
                             General_Health_Assessment := Some labels,
                             has_diabetes_human_readable :=
                               Some (map (\<lambda>x. if x = Some 1 then ''Diabetic'' else ''Non-Diabetic'')
                                       (Diabetes_binary (st ! r)))\<rparr>])
         \<or> take (length st) (snd (gen_health_prep st r flag)) =
            st[r := (st ! r)\<lparr>Has_Diabetes := Some (series_astype_bool (Diabetes_binary (st ! r)))\<rparr>]"
proof (cases "series_apply gen_hlth_label (GenHlth (st ! r))")
  case (Inl e)
  from gen_health_prep_error [OF assms Inl, of flag] show ?thesis
    by simp
next
  case (Inr labels)
  from gen_health_prep_result [OF assms Inr, of flag] show ?thesis
    by auto
qed

lemma after_call_frame:
  assumes "r < length st"
  shows "length st \<le> length (after_call st r c)
         \<and> loaded_columns (after_call st r c ! r) = loaded_columns (st ! r)
         \<and> (\<forall>r' < length st. r' \<noteq> r \<longrightarrow> after_call st r c ! r' = st ! r')"
proof (cases c)
  case Call_bmi_prep
  with assms show ?thesis
    by (simp add: diabetic_bmi_prep_result)
next
  case (Call_salary_prep status)
  with assms show ?thesis
    by (simp add: diabetic_salary_prep_store)
next
  case (Call_gen_health_prep status)
  let ?st' = "snd (gen_health_prep st r status)"
  from gen_health_prep_store [OF assms, of status] obtain df'
    where tk: "take (length st) ?st' = st[r := df']"
      and ld: "loaded_columns df' = loaded_columns (st ! r)"
    by auto
  have "length (take (length st) ?st') = length st"
    by (simp only: tk length_list_update)
  then have len: "length st \<le> length ?st'"
    by simp
  have nth: "?st' ! i = st[r := df'] ! i" if "i < length st" for i
  proof -
    from that have "?st' ! i = take (length st) ?st' ! i"
      by simp
    then show ?thesis
      by (simp only: tk)
  qed
  from assms nth [of r] ld have "loaded_columns (?st' ! r) = loaded_columns (st ! r)"
    by simp
  moreover have "\<forall>r' < length st. r' \<noteq> r \<longrightarrow> ?st' ! r' = st ! r'"
    using nth by simp
  ultimately show ?thesis
    using len Call_gen_health_prep by simp
qed

lemma after_calls_frame:
  "r < length st \<Longrightarrow>
     length st \<le> length (after_calls st r cs)
     \<and> loaded_columns (after_calls st r cs ! r) = loaded_columns (st ! r)
     \<and> (\<forall>r' < length st. r' \<noteq> r \<longrightarrow> after_calls st r cs ! r' = st ! r')"
proof (induction cs arbitrary: st)
  case Nil
  then show ?case by simp
next
  case (Cons c cs)
  let ?st1 = "after_call st r c"
  from after_call_frame [OF Cons.prems, of c]
  have len: "length st \<le> length ?st1"
    and ld: "loaded_columns (?st1 ! r) = loaded_columns (st ! r)"
    and other: "\<forall>r' < length st. r' \<noteq> r \<longrightarrow> ?st1 ! r' = st ! r'"
    by simp_all
  from Cons.prems len have "r < length ?st1"
    by simp
  from Cons.IH [OF this]
  have len': "length ?st1 \<le> length (after_calls ?st1 r cs)"
    and ld': "loaded_columns (after_calls ?st1 r cs ! r) = loaded_columns (?st1 ! r)"
    and other': "\<forall>r' < length ?st1. r' \<noteq> r \<longrightarrow> after_calls ?st1 r cs ! r' = ?st1 ! r'"
    by simp_all
  from len len' ld ld' other other' show ?case
    by auto
qed

section \<open>The trip distance filter\<close>

text \<open>
  C2. The frame that \<^verbatim>\<open>filter_by_trip_distance\<close> returns for the target \<open>t\<close> holds the rows
  of the trip table whose distance \<open>d\<close> satisfies \<open>t - 1 \<le> d \<le> t\<close>, both ends included,
  in their order and no others: a record is in the result if and only if it is a record of
  the table and its distance is in the window. This holds for every whole-number target,
  so for each one from 1 to 25.
\<close>

theorem filter_by_trip_distance_window:
  assumes "filter_by_trip_distance st trips t = (r, st')"
  shows "trip_rows (st' ! r) =
           filter (\<lambda>rec. case trip_miles rec of None \<Rightarrow> False
                        | Some d \<Rightarrow> of_int t - 1 \<le> d \<and> d \<le> of_int t)
             (trip_rows (st ! trips))
         \<and> (rec \<in> set (trip_rows (st' ! r)) \<longleftrightarrow>
              rec \<in> set (trip_rows (st ! trips))
              \<and> (\<exists>d. trip_miles rec = Some d \<and> of_int t - 1 \<le> d \<and> d \<le> of_int t))"
proof -
  from assms have r: "r = length st"
    and st': "st' = st @ [taxi_getitem_mask (st ! trips)
                 (series_between (Trip_Miles (st ! trips)) (of_int (t - 1)) (of_int t))]"
    by (simp_all add: filter_by_trip_distance_def alloc_def)
  have rows: "trip_rows (st' ! r) =
           filter (\<lambda>rec. case trip_miles rec of None \<Rightarrow> False
                        | Some d \<Rightarrow> of_int t - 1 \<le> d \<and> d \<le> of_int t)
             (trip_rows (st ! trips))"
    by (simp add: r st' trip_rows_between)
  show ?thesis
    unfolding rows by (auto split: option.splits)
qed

theorem filter_by_trip_distance_window_witness:
  "filter_by_trip_distance [example_trips] 0 10 =
     (1, [example_trips,
          \<lparr>t_index = [0, 2, 3], Trip_Miles = [Some (19 / 2), Some 10, Some 9],
           t_other = [(), (), ()]\<rparr>])
   \<and> (\<lparr>trip_label = 3, trip_miles = Some 9, trip_other = ()\<rparr> \<in>
        set (trip_rows \<lparr>t_index = [0, 2, 3], Trip_Miles = [Some (19 / 2), Some 10, Some 9],
                        t_other = [(), (), ()]\<rparr>))
   \<and> (\<lparr>trip_label = 6, trip_miles = Some (101 / 10), trip_other = ()\<rparr> \<notin>
        set (trip_rows \<lparr>t_index = [0, 2, 3], Trip_Miles = [Some (19 / 2), Some 10, Some 9],
                        t_other = [(), (), ()]\<rparr>))"
proof -
  have call: "filter_by_trip_distance [example_trips] 0 10 =
     (1, [example_trips,
          \<lparr>t_index = [0, 2, 3], Trip_Miles = [Some (19 / 2), Some 10, Some 9],
           t_other = [(), (), ()]\<rparr>])"
    by (simp add: filter_by_trip_distance_def alloc_def taxi_getitem_mask_def
        series_between_def example_trips_def)
  have rows: "trip_rows example_trips =
     [\<lparr>trip_label = 0, trip_miles = Some (19 / 2), trip_other = ()\<rparr>,
      \<lparr>trip_label = 2, trip_miles = Some 10, trip_other = ()\<rparr>,
      \<lparr>trip_label = 3, trip_miles = Some 9, trip_other = ()\<rparr>,
      \<lparr>trip_label = 5, trip_miles = Some (89 / 10), trip_other = ()\<rparr>,
      \<lparr>trip_label = 6, trip_miles = Some (101 / 10), trip_other = ()\<rparr>,
      \<lparr>trip_label = 9, trip_miles = None, trip_other = ()\<rparr>]"
    by (simp add: trip_rows_def example_trips_def)
  from filter_by_trip_distance_window [OF call,
      of "\<lparr>trip_label = 3, trip_miles = Some 9, trip_other = ()\<rparr>"]
    filter_by_trip_distance_window [OF call,
      of "\<lparr>trip_label = 6, trip_miles = Some (101 / 10), trip_other = ()\<rparr>"]
  show ?thesis
    using call by (simp add: rows)
qed

text \<open>
  C8. A call of \<^verbatim>\<open>filter_by_trip_distance\<close> leaves the trip table, and every other frame
  that existed, as it was; what it returns is a new frame (a reference that was not in use
  before the call and is in use after it); and a second call with the same table and target
  returns a frame equal to the first result.
\<close>

theorem filter_by_trip_distance_copy:
  assumes "trips < length st"
    and "filter_by_trip_distance st trips t = (r1, st1)"
    and "filter_by_trip_distance st1 trips t = (r2, st2)"
  shows "st1 ! trips = st ! trips \<and> take (length st) st1 = st
         \<and> \<not> r1 < length st \<and> r1 \<noteq> trips
         \<and> st2 ! trips = st ! trips \<and> take (length st1) st2 = st1
         \<and> st2 ! r2 = st1 ! r1
         \<and> r1 < length st1 \<and> r2 < length st2"
proof -
  from assms(2) have l1: "length st1 = Suc (length st)"
    by (auto simp: filter_by_trip_distance_def alloc_def)
  from assms(3) have l2: "length st2 = Suc (length st1)"
    by (auto simp: filter_by_trip_distance_def alloc_def)
  from assms(2) have r1: "r1 = length st" and st1: "st1 = st @ [st1 ! r1]"
    by (auto simp: filter_by_trip_distance_def alloc_def)
  from assms(1) st1 have same: "st1 ! trips = st ! trips"
    by (metis nth_append)
  from assms(3) have r2: "r2 = length st1" and st2: "st2 = st1 @ [st2 ! r2]"
    by (auto simp: filter_by_trip_distance_def alloc_def)
  from assms(1) st1 have "trips < length st1"
    by (metis length_append_singleton less_Suc_eq)
  with st2 have same2: "st2 ! trips = st1 ! trips"
    by (metis nth_append)
  from assms(2) have v1: "st1 ! r1 = taxi_getitem_mask (st ! trips)
      (series_between (Trip_Miles (st ! trips)) (of_int (t - 1)) (of_int t))"
    by (auto simp: filter_by_trip_distance_def alloc_def)
  from assms(3) have v2: "st2 ! r2 = taxi_getitem_mask (st1 ! trips)
      (series_between (Trip_Miles (st1 ! trips)) (of_int (t - 1)) (of_int t))"
    by (auto simp: filter_by_trip_distance_def alloc_def)
  have "take (length st) st1 = st"
    by (subst st1) simp
  moreover have "take (length st1) st2 = st1"
    by (subst st2) simp
  ultimately show ?thesis
    using assms(1) r1 r2 l1 l2 same same2 v1 v2 by simp
qed

theorem filter_by_trip_distance_copy_witness:
  "(0::nat) < length [example_trips]
   \<and> snd (filter_by_trip_distance [example_trips] 0 10) ! 0 = example_trips
   \<and> fst (filter_by_trip_distance [example_trips] 0 10) = 1
   \<and> snd (filter_by_trip_distance (snd (filter_by_trip_distance [example_trips] 0 10)) 0 10)
       ! fst (filter_by_trip_distance (snd (filter_by_trip_distance [example_trips] 0 10)) 0 10)
     = snd (filter_by_trip_distance [example_trips] 0 10) ! 1"
proof -
  have len: "(0::nat) < length [example_trips]"
    by simp
  have r1: "fst (filter_by_trip_distance [example_trips] 0 10) = 1"
    by (simp add: filter_by_trip_distance_def alloc_def)
  from filter_by_trip_distance_copy [OF len prod.collapse [symmetric] prod.collapse [symmetric]]
  show ?thesis
    using r1 by simp
qed

section \<open>The income aggregation\<close>

text \<open>
  C1. The scenario of the specification: on the table of the three respondents
  (diabetes 1, income 3, general health 2), (diabetes 0, income 3, general health 4) and
  (diabetes 1, income 3, general health 2), whatever their other columns hold,
  \<^verbatim>\<open>diabetic_salary_prep\<close> returns for \<open>True\<close> one row with the label
  \<open>$15,000 - $20,000\<close> and the count 2, and for \<open>False\<close> one row with the same label and the
  count 1.
\<close>

theorem diabetic_salary_prep_scenario:
  "fst (diabetic_salary_prep
          [\<lparr>s_index = [0, 1, 2], Diabetes_binary = [Some 1, Some 0, Some 1],
            Income = [Some 3, Some 3, Some 3], GenHlth = [Some 2, Some 4, Some 2],
            BMI = [b0, b1, b2], s_other = [x0, x1, x2],
            Has_Diabetes = None, Has_Diabetes_Bin = None, Diabetic_Status = None,
            General_Health_Assessment = None, has_diabetes_human_readable = None\<rparr>]
          0 ''True'') =
     Inr \<lparr>c_index = [0], c_Income = [3], c_Has_Diabetes = [True],
          Number_of_Individuals = [2], Income_Bracket = [''$15,000 - $20,000'']\<rparr>
   \<and> fst (diabetic_salary_prep
          [\<lparr>s_index = [0, 1, 2], Diabetes_binary = [Some 1, Some 0, Some 1],
            Income = [Some 3, Some 3, Some 3], GenHlth = [Some 2, Some 4, Some 2],
            BMI = [b0, b1, b2], s_other = [x0, x1, x2],
            Has_Diabetes = None, Has_Diabetes_Bin = None, Diabetic_Status = None,
            General_Health_Assessment = None, has_diabetes_human_readable = None\<rparr>]
          0 ''False'') =
     Inr \<lparr>c_index = [0], c_Income = [3], c_Has_Diabetes = [False],
          Number_of_Individuals = [1], Income_Bracket = [''$15,000 - $20,000'']\<rparr>"
  by (simp add: diabetic_salary_prep_def set_Has_Diabetes_def series_astype_bool_def
      applicable_def getitem_column_def survey_getitem_mask_def series_invert_def
      diabetes_counts_def groupby_size_def income_bracket_def dict_getitem_float_def
      dict_getitem_def income_code_to_text_def)

lemma length_map_filter_all:
  "\<forall>x \<in> set xs. f x \<noteq> None \<Longrightarrow> length (List.map_filter f xs) = length xs"
  by (induction xs) auto

lemma salary_counts_sum:
  assumes "r < length st" and "wf_survey (st ! r)"
    and "set (Income (st ! r)) \<subseteq> (\<lambda>k. Some (of_int k)) ` dom income_code_to_text"
  shows "\<exists>c p. diabetic_salary_prep st r flag =
               (Inr c, st[r := (st ! r)\<lparr>Has_Diabetes :=
                                  Some (series_astype_bool (Diabetes_binary (st ! r)))\<rparr>])
           \<and> applicable
                 ((st ! r)\<lparr>Has_Diabetes := Some (series_astype_bool (Diabetes_binary (st ! r)))\<rparr>)
                 flag = Inr p
           \<and> survey_rows p =
               filter (\<lambda>rec. (row_diabetes rec \<noteq> Some 0) = (flag = ''True''))
                 (survey_rows (st ! r))
           \<and> sum_list (Number_of_Individuals c) = length (survey_rows p)"
proof -
  let ?sel = "filter (\<lambda>rec. (row_diabetes rec \<noteq> Some 0) = (flag = ''True''))
      (survey_rows (st ! r))"
  let ?incomes = "List.map_filter row_income ?sel"
  from diabetic_salary_prep_partition [OF assms(1,2), of flag] obtain p
    where app: "applicable
                 ((st ! r)\<lparr>Has_Diabetes := Some (series_astype_bool (Diabetes_binary (st ! r)))\<rparr>)
                 flag = Inr p"
      and rows: "survey_rows p = ?sel"
    by blast
  have key: "\<exists>k \<in> dom income_code_to_text. row_income rec = Some (of_int k)"
    if "rec \<in> set ?sel" for rec
  proof -
    from that have "row_income rec \<in> row_income ` set (survey_rows (st ! r))"
      by simp
    with survey_rows_income_subset [of "st ! r"] assms(3) show ?thesis
      by blast
  qed
  have "set ?incomes \<subseteq> real_of_int ` dom income_code_to_text"
  proof
    fix v assume "v \<in> set ?incomes"
    then obtain rec where "rec \<in> set ?sel" and "row_income rec = Some v"
      unfolding set_map_filter by force
    with key [of rec] show "v \<in> real_of_int ` dom income_code_to_text"
      by auto
  qed
  from diabetic_salary_prep_outcome(1) [OF assms(1,2) this] obtain c
    where c: "fst (diabetic_salary_prep st r flag) = Inr c"
      and sum: "sum_list (Number_of_Individuals c) = length ?incomes"
    by blast
  have "\<forall>rec \<in> set ?sel. row_income rec \<noteq> None"
    using key by fastforce
  then have "length ?incomes = length ?sel"
    by (rule length_map_filter_all)
  with sum rows have sum': "sum_list (Number_of_Individuals c) = length (survey_rows p)"
    by simp
  from c diabetic_salary_prep_store [of st r flag]
  have "diabetic_salary_prep st r flag =
      (Inr c, st[r := (st ! r)\<lparr>Has_Diabetes :=
                         Some (series_astype_bool (Diabetes_binary (st ! r)))\<rparr>])"
    by (metis prod.collapse)
  with app rows sum' show ?thesis
    by blast
qed

text \<open>
  C3, as the code has it. On a survey table (every column as long as the index) whose
  diabetes indicator is 0 or 1 and whose income codes are all keys of the income dict, the
  calls for \<open>True\<close> and for \<open>False\<close> both succeed; the two partitions they select are the
  rows with indicator 1 and the rows with indicator 0, every row of the table is in exactly
  one of them, and the counts of the two results add up to the number of rows of the table.
  (The second call is made on the table as the first one left it; on the table as loaded it
  returns the same.)
\<close>

theorem salary_counts_cover_table:
  assumes "r < length st" and "wf_survey (st ! r)"
    and "set (Diabetes_binary (st ! r)) \<subseteq> {Some 0, Some 1}"
    and "set (Income (st ! r)) \<subseteq> (\<lambda>k. Some (of_int k)) ` dom income_code_to_text"
  shows "\<exists>cT st1 cF st2 pT pF.
           diabetic_salary_prep st r ''True'' = (Inr cT, st1)
           \<and> diabetic_salary_prep st1 r ''False'' = (Inr cF, st2)
           \<and> fst (diabetic_salary_prep st r ''False'') = Inr cF
           \<and> applicable (st1 ! r) ''True'' = Inr pT
           \<and> applicable (st1 ! r) ''False'' = Inr pF
           \<and> survey_rows pT = filter (\<lambda>rec. row_diabetes rec = Some 1) (survey_rows (st ! r))
           \<and> survey_rows pF = filter (\<lambda>rec. row_diabetes rec = Some 0) (survey_rows (st ! r))
           \<and> mset (survey_rows pT) + mset (survey_rows pF) = mset (survey_rows (st ! r))
           \<and> set (survey_rows pT) \<inter> set (survey_rows pF) = {}
           \<and> sum_list (Number_of_Individuals cT) = length (survey_rows pT)
           \<and> sum_list (Number_of_Individuals cF) = length (survey_rows pF)
           \<and> sum_list (Number_of_Individuals cT) + sum_list (Number_of_Individuals cF) =
               length (s_index (st ! r))"
proof -
  let ?rows = "survey_rows (st ! r)"
  let ?df1 = "(st ! r)\<lparr>Has_Diabetes := Some (series_astype_bool (Diabetes_binary (st ! r)))\<rparr>"
  let ?st1 = "st[r := ?df1]"
  from salary_counts_sum [OF assms(1,2,4), of "''True''"] obtain cT pT
    where callT: "diabetic_salary_prep st r ''True'' = (Inr cT, ?st1)"
      and appT: "applicable ?df1 ''True'' = Inr pT"
      and rowsT: "survey_rows pT = filter (\<lambda>rec. row_diabetes rec \<noteq> Some 0) ?rows"
      and sumT: "sum_list (Number_of_Individuals cT) = length (survey_rows pT)"
    by auto
  from salary_counts_sum [OF assms(1,2,4), of "''False''"] obtain cF pF
    where callF0: "diabetic_salary_prep st r ''False'' = (Inr cF, ?st1)"
      and appF: "applicable ?df1 ''False'' = Inr pF"
      and rowsF: "survey_rows pF = filter (\<lambda>rec. row_diabetes rec = Some 0) ?rows"
      and sumF: "sum_list (Number_of_Individuals cF) = length (survey_rows pF)"
    by auto
  from assms(1) have at_r: "?st1 ! r = ?df1"
    by simp
  from assms(1) have "diabetic_salary_prep ?st1 r ''False'' = diabetic_salary_prep st r ''False''"
    by (simp add: diabetic_salary_prep_def set_Has_Diabetes_def)
  with callF0 have callF: "diabetic_salary_prep ?st1 r ''False'' = (Inr cF, ?st1)"
    by simp
  have ind: "row_diabetes rec = Some 0 \<or> row_diabetes rec = Some 1" if "rec \<in> set ?rows" for rec
    using that survey_rows_diabetes_subset [of "st ! r"] assms(3) by auto
  have "filter (\<lambda>rec. row_diabetes rec \<noteq> Some 0) ?rows =
      filter (\<lambda>rec. row_diabetes rec = Some 1) ?rows"
    by (rule filter_cong [OF refl]) (use ind in auto)
  with rowsT have rowsT1: "survey_rows pT = filter (\<lambda>rec. row_diabetes rec = Some 1) ?rows"
    by simp
  have part: "mset (survey_rows pT) + mset (survey_rows pF) = mset ?rows"
    unfolding rowsT rowsF by (simp add: union_commute)
  have disj: "set (survey_rows pT) \<inter> set (survey_rows pF) = {}"
    unfolding rowsT rowsF by auto
  from part have "length (survey_rows pT) + length (survey_rows pF) = length ?rows"
    by (metis size_mset size_union)
  with sumT sumF have total: "sum_list (Number_of_Individuals cT)
      + sum_list (Number_of_Individuals cF) = length (s_index (st ! r))"
    by (simp add: wf_survey_rows(1) [OF assms(2)])
  show ?thesis
  proof (intro exI conjI)
    show "diabetic_salary_prep st r ''True'' = (Inr cT, ?st1)" by (rule callT)
    show "diabetic_salary_prep ?st1 r ''False'' = (Inr cF, ?st1)" by (rule callF)
    show "fst (diabetic_salary_prep st r ''False'') = Inr cF" by (simp only: callF0 fst_conv)
    show "applicable (?st1 ! r) ''True'' = Inr pT" by (simp only: at_r appT)
    show "applicable (?st1 ! r) ''False'' = Inr pF" by (simp only: at_r appF)
    show "survey_rows pT = filter (\<lambda>rec. row_diabetes rec = Some 1) ?rows" by (rule rowsT1)
    show "survey_rows pF = filter (\<lambda>rec. row_diabetes rec = Some 0) ?rows" by (rule rowsF)
    show "mset (survey_rows pT) + mset (survey_rows pF) = mset ?rows" by (rule part)
    show "set (survey_rows pT) \<inter> set (survey_rows pF) = {}" by (rule disj)
    show "sum_list (Number_of_Individuals cT) = length (survey_rows pT)" by (rule sumT)
    show "sum_list (Number_of_Individuals cF) = length (survey_rows pF)" by (rule sumF)
    show "sum_list (Number_of_Individuals cT) + sum_list (Number_of_Individuals cF) =
        length (s_index (st ! r))" by (rule total)
  qed
qed

theorem salary_counts_cover_table_witness:
  "(0::nat) < length [example_survey] \<and> wf_survey example_survey
   \<and> set (Diabetes_binary example_survey) \<subseteq> {Some 0, Some 1}
   \<and> set (Income example_survey) \<subseteq> (\<lambda>k. Some (of_int k)) ` dom income_code_to_text
   \<and> (\<exists>cT st1 cF st2.
         diabetic_salary_prep [example_survey] 0 ''True'' = (Inr cT, st1)
         \<and> diabetic_salary_prep st1 0 ''False'' = (Inr cF, st2)
         \<and> sum_list (Number_of_Individuals cT) + sum_list (Number_of_Individuals cF) = 3)"
proof -
  have len: "(0::nat) < length [example_survey]"
    by simp
  have wf: "wf_survey ([example_survey] ! 0)"
    by (simp add: wf_survey_def example_survey_def opt_len_def)
  have ind: "set (Diabetes_binary ([example_survey] ! 0)) \<subseteq> {Some 0, Some 1}"
    by (simp add: example_survey_def)
  have "Some (3::real) = Some (of_int 3)" and "(3::int) \<in> dom income_code_to_text"
    by (simp_all add: income_code_to_text_dom)
  then have "Some (3::real) \<in> (\<lambda>k. Some (of_int k)) ` dom income_code_to_text"
    by (rule image_eqI)
  then have codes: "set (Income ([example_survey] ! 0))
      \<subseteq> (\<lambda>k. Some (of_int k)) ` dom income_code_to_text"
    by (simp add: example_survey_def)
  have n: "length (s_index ([example_survey] ! 0)) = 3"
    by (simp add: example_survey_def)
  from salary_counts_cover_table [OF len wf ind codes] obtain cT st1 cF st2
    where "diabetic_salary_prep [example_survey] 0 ''True'' = (Inr cT, st1)"
      and "diabetic_salary_prep st1 0 ''False'' = (Inr cF, st2)"
      and "sum_list (Number_of_Individuals cT) + sum_list (Number_of_Individuals cF) =
        length (s_index ([example_survey] ! 0))"
    by blast
  with n have "\<exists>cT st1 cF st2.
         diabetic_salary_prep [example_survey] 0 ''True'' = (Inr cT, st1)
         \<and> diabetic_salary_prep st1 0 ''False'' = (Inr cF, st2)
         \<and> sum_list (Number_of_Individuals cT) + sum_list (Number_of_Individuals cF) = 3"
    by (metis (no_types))
  with wf ind codes show ?thesis
    by simp
qed

text \<open>
  C3 as stated fails: the indicator of the table below is 0 or 1, but the income code 98 of
  its respondent without diabetes is not a key of the dict, and the call for \<open>False\<close> ends
  in a KeyError instead of counts.
\<close>

theorem salary_counts_unknown_income:
  "wf_survey unknown_income_survey
   \<and> set (Diabetes_binary unknown_income_survey) \<subseteq> {Some 0, Some 1}
   \<and> fst (diabetic_salary_prep [unknown_income_survey] 0 ''False'') = Inl (KeyError_code 98)"
  by (simp add: wf_survey_def opt_len_def unknown_income_survey_def
      diabetic_salary_prep_def set_Has_Diabetes_def series_astype_bool_def
      applicable_def getitem_column_def survey_getitem_mask_def series_invert_def
      diabetes_counts_def groupby_size_def income_bracket_def dict_getitem_float_def
      dict_getitem_def income_code_to_text_def)

section \<open>Codes that are not keys\<close>


lemma py_trunc_numeral [simp]: "py_trunc (numeral n) = numeral n"
  by (simp add: py_trunc_def)





section \<open>The BMI ceiling\<close>

text \<open>
  C6. The page keeps the rows of the prepared survey table with \<^verbatim>\<open>BMI <= max_bmi\<close>. For
  every ceiling \<open>c\<close> the step succeeds, the rows of the frame it produces are the rows of the
  table with a BMI of at most \<open>c\<close> (a row without a BMI is not among them), a record whose
  BMI is exactly \<open>c\<close> is kept and a record whose BMI is \<open>c + 1\<close> is not.
\<close>

theorem bmi_ceiling_inclusive:
  assumes "diabetes < length st"
  shows "\<exists>r st'. prepared_diabetes st diabetes c = (Inr r, st')
           \<and> survey_rows (st' ! r) =
               filter (\<lambda>rec. case row_bmi rec of None \<Rightarrow> False | Some b \<Rightarrow> b \<le> of_int c)
                 (survey_rows (st ! diabetes))
           \<and> (\<forall>rec \<in> set (survey_rows (st ! diabetes)).
                 (row_bmi rec = Some (of_int c) \<longrightarrow> rec \<in> set (survey_rows (st' ! r)))
                 \<and> (row_bmi rec = Some (of_int c + 1) \<longrightarrow>
                      rec \<notin> set (survey_rows (st' ! r))))"
proof -
  let ?df = "(st ! diabetes)\<lparr>Has_Diabetes_Bin :=
                 Some (series_astype_bool (Diabetes_binary (st ! diabetes))),
               Diabetic_Status :=
                 Some (map (\<lambda>x. if x then ''Diabetic'' else ''Non-Diabetic'')
                         (series_astype_bool (Diabetes_binary (st ! diabetes))))\<rparr>"
  let ?st1 = "st[diabetes := ?df]"
  let ?res = "survey_getitem_mask ?df (series_le (BMI ?df) (of_int c))"
  let ?keep = "\<lambda>rec. case row_bmi rec of None \<Rightarrow> False | Some b \<Rightarrow> b \<le> of_int c"
  from assms have call: "prepared_diabetes st diabetes c = (Inr (length st), ?st1 @ [?res])"
    by (simp add: prepared_diabetes_def diabetic_bmi_prep_result alloc_def)
  have res: "(?st1 @ [?res]) ! length st = ?res"
    by (simp add: nth_append)
  have rows: "survey_rows ?res = filter ?keep (survey_rows (st ! diabetes))"
    using survey_rows_le [of ?df "of_int c"] by simp
  show ?thesis
  proof (intro exI conjI)
    show "prepared_diabetes st diabetes c = (Inr (length st), ?st1 @ [?res])"
      by (rule call)
    show "survey_rows ((?st1 @ [?res]) ! length st) = filter ?keep (survey_rows (st ! diabetes))"
      by (simp only: res rows)
    show "\<forall>rec \<in> set (survey_rows (st ! diabetes)).
        (row_bmi rec = Some (of_int c) \<longrightarrow>
           rec \<in> set (survey_rows ((?st1 @ [?res]) ! length st)))
        \<and> (row_bmi rec = Some (of_int c + 1) \<longrightarrow>
             rec \<notin> set (survey_rows ((?st1 @ [?res]) ! length st)))"
      by (simp only: res rows) auto
  qed
qed

theorem bmi_ceiling_inclusive_witness:
  "(0::nat) < length [example_survey]
   \<and> (\<exists>r st'. prepared_diabetes [example_survey] 0 30 = (Inr r, st')
        \<and> survey_rows (st' ! r) =
            [\<lparr>row_label = 0, row_diabetes = Some 1, row_income = Some 3, row_genHlth = Some 2,
              row_bmi = Some 30, row_other = ()\<rparr>,
             \<lparr>row_label = 1, row_diabetes = Some 0, row_income = Some 3, row_genHlth = Some 4,
              row_bmi = Some 25, row_other = ()\<rparr>])"
proof -
  have len: "(0::nat) < length [example_survey]"
    by simp
  from bmi_ceiling_inclusive [OF len, of 30]
  obtain r st' where "prepared_diabetes [example_survey] 0 30 = (Inr r, st')"
    and "survey_rows (st' ! r) =
        filter (\<lambda>rec. case row_bmi rec of None \<Rightarrow> False | Some b \<Rightarrow> b \<le> of_int 30)
          (survey_rows ([example_survey] ! 0))"
    by blast
  then show ?thesis
    by (simp add: survey_rows_example)
qed

section \<open>The general-health view\<close>

lemma py_trunc_of_int [simp]: "py_trunc (of_int k) = k"
  by (simp add: py_trunc_def)

lemma set_bool_index_subset: "set (bool_index xs m) \<subseteq> set xs"
  by (induction xs m rule: bool_index.induct) auto

text \<open>
  C9. On a survey table whose diabetes indicator is 0 or 1 and whose general-health codes
  are keys of the general-health dict, and for the flag \<open>True\<close> or \<open>False\<close>,
  \<^verbatim>\<open>gen_health_prep\<close> succeeds and returns a frame whose rows are exactly the rows of the
  table with the indicator of the flag (1 for \<open>True\<close>, 0 for \<open>False\<close>), in their order;
  its general-health label of each row is the dict's entry for the row's code, and its
  status label of each row is \<open>Diabetic\<close> when the indicator is 1 and \<open>Non-Diabetic\<close>
  otherwise.
\<close>

theorem gen_health_prep_partition:
  assumes "q < length st"
    and "set (Diabetes_binary (st ! q)) \<subseteq> {Some 0, Some 1}"
    and "set (GenHlth (st ! q)) \<subseteq> (\<lambda>k. Some (of_int k)) ` dom gen_hlth_mapping"
    and "flag = ''True'' \<or> flag = ''False''"
  shows "\<exists>r st' labels codes.
           gen_health_prep st q flag = (Inr r, st')
           \<and> survey_rows (st' ! r) =
               filter (\<lambda>rec. row_diabetes rec = Some (if flag = ''True'' then 1 else 0))
                 (survey_rows (st ! q))
           \<and> General_Health_Assessment (st' ! r) = Some labels
           \<and> GenHlth (st' ! r) = map (\<lambda>k. Some (of_int k)) codes
           \<and> map Some labels = map gen_hlth_mapping codes
           \<and> has_diabetes_human_readable (st' ! r) =
               Some (map (\<lambda>d. if d = Some 1 then ''Diabetic'' else ''Non-Diabetic'')
                       (Diabetes_binary (st' ! r)))"
proof -
  let ?df = "st ! q"
  have "\<forall>x \<in> set (GenHlth ?df). \<exists>v. x = Some v \<and> py_trunc v \<in> dom gen_hlth_mapping"
    using assms(3) by fastforce
  from gen_health_prep_returns [OF assms(1) this] obtain all_labels
    where app: "series_apply gen_hlth_label (GenHlth ?df) = Inr all_labels"
    by blast
  let ?has = "series_astype_bool (Diabetes_binary ?df)"
  let ?m = "if flag = ''True'' then ?has else series_invert ?has"
  let ?df3 = "?df\<lparr>Has_Diabetes := Some ?has, General_Health_Assessment := Some all_labels,
                   has_diabetes_human_readable :=
                     Some (map (\<lambda>x. if x = Some 1 then ''Diabetic'' else ''Non-Diabetic'')
                             (Diabetes_binary ?df))\<rparr>"
  let ?res = "survey_getitem_mask ?df3 ?m"
  let ?st' = "st[q := ?df3] @ [?res]"
  have call: "gen_health_prep st q flag = (Inr (length st), ?st')"
    by (rule gen_health_prep_result [OF assms(1) app])
  have res: "?st' ! length st = ?res"
    by (simp add: nth_append)
  have "Has_Diabetes ?df3 = Some (series_astype_bool (Diabetes_binary ?df3))"
    by simp
  from applicable_rows [OF this, of flag]
  have "survey_rows ?res =
      filter (\<lambda>rec. (row_diabetes rec \<noteq> Some 0) = (flag = ''True'')) (survey_rows ?df)"
    by (cases "flag = ''True''") simp_all
  also have "\<dots> = filter (\<lambda>rec. row_diabetes rec = Some (if flag = ''True'' then 1 else 0))
      (survey_rows ?df)"
  proof (rule filter_cong [OF refl])
    fix rec assume "rec \<in> set (survey_rows ?df)"
    with survey_rows_diabetes_subset [of ?df] assms(2)
    have "row_diabetes rec = Some 0 \<or> row_diabetes rec = Some 1"
      by auto
    then show "((row_diabetes rec \<noteq> Some 0) = (flag = ''True'')) =
        (row_diabetes rec = Some (if flag = ''True'' then 1 else 0))"
      by auto
  qed
  finally have rows: "survey_rows ?res =
      filter (\<lambda>rec. row_diabetes rec = Some (if flag = ''True'' then 1 else 0))
        (survey_rows ?df)" .
  from gen_health_prep_labels [OF assms(1) call] obtain labels
    where gha: "General_Health_Assessment (?st' ! length st) = Some labels"
      and labels: "map Some labels =
        map (\<lambda>x. Option.bind x (\<lambda>v. gen_hlth_mapping (py_trunc v))) (GenHlth (?st' ! length st))"
    by blast
  let ?codes = "map (\<lambda>x. py_trunc (the x)) (GenHlth ?res)"
  have whole: "\<exists>k. x = Some (of_int k)" if "x \<in> set (GenHlth ?res)" for x
  proof -
    have "GenHlth ?res = bool_index (GenHlth ?df) ?m"
      by (simp add: survey_getitem_mask_def)
    with that set_bool_index_subset [of "GenHlth ?df" ?m] have "x \<in> set (GenHlth ?df)"
      by auto
    with assms(3) show ?thesis
      by auto
  qed
  have codes: "GenHlth ?res = map (\<lambda>k. Some (of_int k)) ?codes"
  proof -
    have "map (\<lambda>k. Some (real_of_int k)) ?codes =
        map (\<lambda>x. Some (real_of_int (py_trunc (the x)))) (GenHlth ?res)"
      by (simp add: comp_def)
    also have "\<dots> = map (\<lambda>x. x) (GenHlth ?res)"
      by (rule map_cong [OF refl]) (use whole in force)
    finally show ?thesis
      by simp
  qed
  have "map (\<lambda>x. Option.bind x (\<lambda>v. gen_hlth_mapping (py_trunc v))) (GenHlth ?res) =
      map (\<lambda>x. gen_hlth_mapping (py_trunc (the x))) (GenHlth ?res)"
    by (rule map_cong [OF refl]) (use whole in force)
  also have "\<dots> = map gen_hlth_mapping ?codes"
    by (simp add: comp_def)
  finally have labels': "map Some labels = map gen_hlth_mapping ?codes"
    using labels unfolding res by simp
  have hr: "has_diabetes_human_readable ?res =
      Some (map (\<lambda>d. if d = Some 1 then ''Diabetic'' else ''Non-Diabetic'')
              (Diabetes_binary ?res))"
    by (simp add: survey_getitem_mask_def bool_index_map)
  show ?thesis
  proof (intro exI conjI)
    show "gen_health_prep st q flag = (Inr (length st), ?st')"
      by (rule call)
    show "survey_rows (?st' ! length st) =
        filter (\<lambda>rec. row_diabetes rec = Some (if flag = ''True'' then 1 else 0))
          (survey_rows ?df)"
      by (simp only: res rows)
    show "General_Health_Assessment (?st' ! length st) = Some labels"
      by (rule gha)
    show "GenHlth (?st' ! length st) = map (\<lambda>k. Some (of_int k)) ?codes"
      unfolding res by (rule codes)
    show "map Some labels = map gen_hlth_mapping ?codes"
      by (rule labels')
    show "has_diabetes_human_readable (?st' ! length st) =
        Some (map (\<lambda>d. if d = Some 1 then ''Diabetic'' else ''Non-Diabetic'')
                (Diabetes_binary (?st' ! length st)))"
      by (simp only: res hr)
  qed
qed

theorem gen_health_prep_partition_witness:
  "(0::nat) < length [example_survey]
   \<and> set (Diabetes_binary example_survey) \<subseteq> {Some 0, Some 1}
   \<and> set (GenHlth example_survey) \<subseteq> (\<lambda>k. Some (of_int k)) ` dom gen_hlth_mapping
   \<and> (\<exists>r st'. gen_health_prep [example_survey] 0 ''True'' = (Inr r, st')
        \<and> survey_rows (st' ! r) =
            [\<lparr>row_label = 0, row_diabetes = Some 1, row_income = Some 3, row_genHlth = Some 2,
              row_bmi = Some 30, row_other = ()\<rparr>,
             \<lparr>row_label = 2, row_diabetes = Some 1, row_income = Some 3, row_genHlth = Some 2,
              row_bmi = Some 31, row_other = ()\<rparr>]
        \<and> General_Health_Assessment (st' ! r) = Some [''Very Good'', ''Very Good'']
        \<and> has_diabetes_human_readable (st' ! r) = Some [''Diabetic'', ''Diabetic''])"
proof -
  have len: "(0::nat) < length [example_survey]"
    by simp
  have ind: "set (Diabetes_binary ([example_survey] ! 0)) \<subseteq> {Some 0, Some 1}"
    by (simp add: example_survey_def)
  have key: "Some (real_of_int k) \<in> (\<lambda>k. Some (of_int k)) ` dom gen_hlth_mapping"
    if "k \<in> dom gen_hlth_mapping" for k
    using that by (rule imageI)
  from key [of 2] key [of 4]
  have codes: "set (GenHlth ([example_survey] ! 0))
      \<subseteq> (\<lambda>k. Some (of_int k)) ` dom gen_hlth_mapping"
    by (simp add: example_survey_def gen_hlth_mapping_dom)
  have flag: "''True'' = ''True'' \<or> ''True'' = ''False''"
    by simp
  from gen_health_prep_partition [OF len ind codes flag]
  obtain r st' where call: "gen_health_prep [example_survey] 0 ''True'' = (Inr r, st')"
    and rows: "survey_rows (st' ! r) =
        filter (\<lambda>rec. row_diabetes rec = Some (if ''True'' = ''True'' then 1 else 0))
          (survey_rows ([example_survey] ! 0))"
    by blast
  have val: "gen_health_prep [example_survey] 0 ''True'' =
      (Inr 1,
       [example_survey\<lparr>Has_Diabetes := Some [True, False, True],
          General_Health_Assessment := Some [''Very Good'', ''Fair'', ''Very Good''],
          has_diabetes_human_readable := Some [''Diabetic'', ''Non-Diabetic'', ''Diabetic'']\<rparr>,
        \<lparr>s_index = [0, 2], Diabetes_binary = [Some 1, Some 1], Income = [Some 3, Some 3],
         GenHlth = [Some 2, Some 2], BMI = [Some 30, Some 31], s_other = [(), ()],
         Has_Diabetes = Some [True, True], Has_Diabetes_Bin = None, Diabetic_Status = None,
         General_Health_Assessment = Some [''Very Good'', ''Very Good''],
         has_diabetes_human_readable = Some [''Diabetic'', ''Diabetic'']\<rparr>])"
    by (simp add: gen_health_prep_def set_Has_Diabetes_def set_General_Health_Assessment_def
        set_has_diabetes_human_readable_def applicable_def getitem_column_def alloc_def
        series_astype_bool_def gen_hlth_label_def py_int_def dict_getitem_def
        gen_hlth_mapping_def survey_getitem_mask_def example_survey_def)
  from call val have "r = 1"
    and "st' ! r = \<lparr>s_index = [0, 2], Diabetes_binary = [Some 1, Some 1],
         Income = [Some 3, Some 3],
         GenHlth = [Some 2, Some 2], BMI = [Some 30, Some 31], s_other = [(), ()],
         Has_Diabetes = Some [True, True], Has_Diabetes_Bin = None, Diabetic_Status = None,
         General_Health_Assessment = Some [''Very Good'', ''Very Good''],
         has_diabetes_human_readable = Some [''Diabetic'', ''Diabetic'']\<rparr>"
    by auto
  with call rows show ?thesis
    using ind codes by (simp add: survey_rows_example)
qed

lemma gen_health_prep_rows:
  assumes "q < length st"
    and "gen_health_prep st q flag = (Inr r, st')"
  shows "survey_rows (st' ! r) =
           filter (\<lambda>rec. (row_diabetes rec \<noteq> Some 0) = (flag = ''True'')) (survey_rows (st ! q))"
proof (cases "series_apply gen_hlth_label (GenHlth (st ! q))")
  case (Inl e)
  from gen_health_prep_error [OF assms(1) Inl, of flag] assms(2) show ?thesis
    by simp
next
  case (Inr all_labels)
  let ?has = "series_astype_bool (Diabetes_binary (st ! q))"
  let ?m = "if flag = ''True'' then ?has else series_invert ?has"
  let ?df3 = "(st ! q)\<lparr>Has_Diabetes := Some ?has, General_Health_Assessment := Some all_labels,
                   has_diabetes_human_readable :=
                     Some (map (\<lambda>x. if x = Some 1 then ''Diabetic'' else ''Non-Diabetic'')
                             (Diabetes_binary (st ! q)))\<rparr>"
  let ?res = "survey_getitem_mask ?df3 ?m"
  from gen_health_prep_result [OF assms(1) Inr, of flag] assms(2)
  have r: "r = length st" and st': "st' = st[q := ?df3] @ [?res]"
    by simp_all
  have res: "st' ! r = ?res"
    unfolding r st' by (simp add: nth_append)
  have "Has_Diabetes ?df3 = Some (series_astype_bool (Diabetes_binary ?df3))"
    by simp
  from applicable_rows [OF this, of flag]
  have "survey_rows ?res =
      filter (\<lambda>rec. (row_diabetes rec \<noteq> Some 0) = (flag = ''True'')) (survey_rows (st ! q))"
    by (cases "flag = ''True''") simp_all
  then show ?thesis
    unfolding res .
qed

text \<open>
  C10. Both \<^verbatim>\<open>diabetic_salary_prep\<close> and \<^verbatim>\<open>gen_health_prep\<close> compare the status with the
  string \<open>True\<close> and take the other branch for anything else. For every status that is not
  exactly \<open>True\<close>, on a survey table (every column as long as the index):
  \<^item> each call is equal to the call for \<open>False\<close>, in what it returns or raises and in the
    store it leaves;
  \<^item> the frame that \<^verbatim>\<open>gen_health_prep\<close> returns holds exactly the rows of the respondents
    without diabetes (indicator 0), in their order;
  \<^item> the counts that \<^verbatim>\<open>diabetic_salary_prep\<close> returns are those of the respondents
    without diabetes: one row for each income code that occurs among them, in ascending
    order, with the number of them that have the code, and \<open>False\<close> beside it;
  \<^item> and each call does return when its lookups succeed: \<^verbatim>\<open>gen_health_prep\<close> when every
    general-health code of the table is present and truncates to a key,
    \<^verbatim>\<open>diabetic_salary_prep\<close> when the income codes of the respondents without diabetes
    that are present are keys.
\<close>

theorem other_status_is_False:
  assumes "diab_status \<noteq> ''True''" and "r < length st" and "wf_survey (st ! r)"
  shows "diabetic_salary_prep st r diab_status = diabetic_salary_prep st r ''False''
         \<and> gen_health_prep st r diab_status = gen_health_prep st r ''False''
         \<and> (\<forall>q st'. gen_health_prep st r diab_status = (Inr q, st') \<longrightarrow>
                survey_rows (st' ! q) =
                  filter (\<lambda>rec. row_diabetes rec = Some 0) (survey_rows (st ! r)))
         \<and> (\<forall>c. fst (diabetic_salary_prep st r diab_status) = Inr c \<longrightarrow>
                c_Income c =
                  sort (remdups (List.map_filter row_income
                    (filter (\<lambda>rec. row_diabetes rec = Some 0) (survey_rows (st ! r)))))
                \<and> Number_of_Individuals c =
                    map (count_list (List.map_filter row_income
                           (filter (\<lambda>rec. row_diabetes rec = Some 0) (survey_rows (st ! r)))))
                      (c_Income c)
                \<and> c_Has_Diabetes c = map (\<lambda>v. False) (c_Income c))
         \<and> ((\<forall>x \<in> set (GenHlth (st ! r)). \<exists>v. x = Some v \<and> py_trunc v \<in> dom gen_hlth_mapping)
              \<longrightarrow> (\<exists>q st'. gen_health_prep st r diab_status = (Inr q, st')))
         \<and> (set (List.map_filter row_income
                   (filter (\<lambda>rec. row_diabetes rec = Some 0) (survey_rows (st ! r))))
               \<subseteq> real_of_int ` dom income_code_to_text
              \<longrightarrow> (\<exists>c. fst (diabetic_salary_prep st r diab_status) = Inr c))"
proof (intro conjI allI impI)
  have sel: "(\<lambda>rec. (row_diabetes rec \<noteq> Some 0) = (diab_status = ''True'')) =
      (\<lambda>rec :: 'a survey_record. row_diabetes rec = Some 0)"
    using assms(1) by auto
  show "diabetic_salary_prep st r diab_status = diabetic_salary_prep st r ''False''"
    unfolding diabetic_salary_prep_def applicable_other [OF assms(1)] by simp
  show "gen_health_prep st r diab_status = gen_health_prep st r ''False''"
    unfolding gen_health_prep_def applicable_other [OF assms(1)] by simp
  {
    fix q st' assume "gen_health_prep st r diab_status = (Inr q, st')"
    from gen_health_prep_rows [OF assms(2) this]
    show "survey_rows (st' ! q) =
        filter (\<lambda>rec. row_diabetes rec = Some 0) (survey_rows (st ! r))"
      unfolding sel .
  }
  {
    fix c assume "fst (diabetic_salary_prep st r diab_status) = Inr c"
    from diabetic_salary_prep_value [OF assms(2,3) this] assms(1)
    show "c_Income c =
        sort (remdups (List.map_filter row_income
          (filter (\<lambda>rec. row_diabetes rec = Some 0) (survey_rows (st ! r)))))"
      and "Number_of_Individuals c =
        map (count_list (List.map_filter row_income
               (filter (\<lambda>rec. row_diabetes rec = Some 0) (survey_rows (st ! r)))))
          (c_Income c)"
      and "c_Has_Diabetes c = map (\<lambda>v. False) (c_Income c)"
      unfolding sel by simp_all
  }
  {
    assume "\<forall>x \<in> set (GenHlth (st ! r)). \<exists>v. x = Some v \<and> py_trunc v \<in> dom gen_hlth_mapping"
    from gen_health_prep_returns [OF assms(2) this] obtain labels
      where "series_apply gen_hlth_label (GenHlth (st ! r)) = Inr labels"
      by blast
    from gen_health_prep_result [OF assms(2) this, of diab_status]
    show "\<exists>q st'. gen_health_prep st r diab_status = (Inr q, st')"
      by blast
  }
  {
    assume "set (List.map_filter row_income
        (filter (\<lambda>rec. row_diabetes rec = Some 0) (survey_rows (st ! r))))
      \<subseteq> real_of_int ` dom income_code_to_text"
    then have "set (List.map_filter row_income
        (filter (\<lambda>rec. (row_diabetes rec \<noteq> Some 0) = (diab_status = ''True''))
           (survey_rows (st ! r))))
      \<subseteq> real_of_int ` dom income_code_to_text"
      unfolding sel .
    from diabetic_salary_prep_outcome(1) [OF assms(2,3) this]
    show "\<exists>c. fst (diabetic_salary_prep st r diab_status) = Inr c"
      by blast
  }
qed

theorem other_status_is_False_witness:
  "''true'' \<noteq> ''True'' \<and> (0::nat) < length [example_survey] \<and> wf_survey example_survey
   \<and> diabetic_salary_prep [example_survey] 0 ''true'' =
       diabetic_salary_prep [example_survey] 0 ''False''
   \<and> gen_health_prep [example_survey] 0 ''true'' = gen_health_prep [example_survey] 0 ''False''
   \<and> (\<exists>q st'. gen_health_prep [example_survey] 0 ''true'' = (Inr q, st')
        \<and> survey_rows (st' ! q) =
            [\<lparr>row_label = 1, row_diabetes = Some 0, row_income = Some 3, row_genHlth = Some 4,
              row_bmi = Some 25, row_other = ()\<rparr>])
   \<and> (\<exists>c. fst (diabetic_salary_prep [example_survey] 0 ''true'') = Inr c
        \<and> c_Income c = [3] \<and> Number_of_Individuals c = [1] \<and> c_Has_Diabetes c = [False])"
proof -
  have ne: "''true'' \<noteq> ''True''"
    by simp
  have len: "(0::nat) < length [example_survey]"
    by simp
  have wf: "wf_survey ([example_survey] ! 0)"
    by (simp add: wf_survey_def example_survey_def opt_len_def)
  note inst = other_status_is_False [OF ne len wf]
  have rows0: "filter (\<lambda>rec. row_diabetes rec = Some 0) (survey_rows ([example_survey] ! 0)) =
      [\<lparr>row_label = 1, row_diabetes = Some 0, row_income = Some 3, row_genHlth = Some 4,
        row_bmi = Some 25, row_other = ()\<rparr>]"
    by (simp add: survey_rows_example)
  have incomes0: "List.map_filter row_income
      (filter (\<lambda>rec. row_diabetes rec = Some 0) (survey_rows ([example_survey] ! 0))) = [3]"
    unfolding rows0 by simp
  have "\<forall>x \<in> set (GenHlth ([example_survey] ! 0)).
      \<exists>v. x = Some v \<and> py_trunc v \<in> dom gen_hlth_mapping"
    by (simp add: example_survey_def gen_hlth_mapping_dom)
  from inst [THEN conjunct2, THEN conjunct2, THEN conjunct2, THEN conjunct2, THEN conjunct1,
      THEN mp, OF this]
  obtain q st' where call: "gen_health_prep [example_survey] 0 ''true'' = (Inr q, st')"
    by blast
  from inst [THEN conjunct2, THEN conjunct2, THEN conjunct1, rule_format, OF call]
  have g: "\<exists>q st'. gen_health_prep [example_survey] 0 ''true'' = (Inr q, st')
        \<and> survey_rows (st' ! q) =
            [\<lparr>row_label = 1, row_diabetes = Some 0, row_income = Some 3, row_genHlth = Some 4,
              row_bmi = Some 25, row_other = ()\<rparr>]"
    unfolding rows0 using call by blast
  have "(3::real) \<in> real_of_int ` dom income_code_to_text"
    by (simp add: income_key_iff income_code_to_text_def)
  then have "set (List.map_filter row_income
      (filter (\<lambda>rec. row_diabetes rec = Some 0) (survey_rows ([example_survey] ! 0))))
    \<subseteq> real_of_int ` dom income_code_to_text"
    unfolding incomes0 by simp
  from inst [THEN conjunct2, THEN conjunct2, THEN conjunct2, THEN conjunct2, THEN conjunct2,
      THEN mp, OF this]
  obtain c where c: "fst (diabetic_salary_prep [example_survey] 0 ''true'') = Inr c"
    by blast
  from inst [THEN conjunct2, THEN conjunct2, THEN conjunct2, THEN conjunct1, rule_format, OF c]
  have "c_Income c = [3] \<and> Number_of_Individuals c = [1] \<and> c_Has_Diabetes c = [False]"
    unfolding incomes0 by simp
  with c have s: "\<exists>c. fst (diabetic_salary_prep [example_survey] 0 ''true'') = Inr c
        \<and> c_Income c = [3] \<and> Number_of_Individuals c = [1] \<and> c_Has_Diabetes c = [False]"
    by blast
  from inst [THEN conjunct1] inst [THEN conjunct2, THEN conjunct1] g s wf show ?thesis
    by simp
qed

section \<open>What the calls change in the survey table\<close>

lemma series_apply_gen_labels:
  assumes "series_apply gen_hlth_label xs = Inr labels"
  shows "map Some labels = map (\<lambda>x. Option.bind x (\<lambda>v. gen_hlth_mapping (py_trunc v))) xs"
proof (rule nth_equalityI)
  from series_apply_Inr [OF assms] have len: "length xs = length labels"
    by (metis length_map)
  then show "length (map Some labels) =
      length (map (\<lambda>x. Option.bind x (\<lambda>v. gen_hlth_mapping (py_trunc v))) xs)"
    by simp
  fix i assume "i < length (map Some labels)"
  then have i: "i < length labels"
    by simp
  from series_apply_Inr [OF assms] i len have "gen_hlth_label (xs ! i) = Inr (labels ! i)"
    by (metis nth_map)
  then have "Option.bind (xs ! i) (\<lambda>v. gen_hlth_mapping (py_trunc v)) = Some (labels ! i)"
    by (auto simp: gen_hlth_label_Inr)
  with i len show "map Some labels ! i =
      map (\<lambda>x. Option.bind x (\<lambda>v. gen_hlth_mapping (py_trunc v))) xs ! i"
    by simp
qed

text \<open>
  C7, as the code has it. The preparation functions assign columns into the survey table
  they are given:
  \<^item> \<^verbatim>\<open>diabetic_bmi_prep\<close> sets \<^verbatim>\<open>Has Diabetes Bin\<close> and \<^verbatim>\<open>Diabetic Status\<close>, and returns
    the table itself;
  \<^item> \<^verbatim>\<open>diabetic_salary_prep\<close> sets \<^verbatim>\<open>Has Diabetes\<close>;
  \<^item> \<^verbatim>\<open>gen_health_prep\<close>, when it returns, has set \<^verbatim>\<open>Has Diabetes\<close>,
    \<^verbatim>\<open>General_Health_Assessment\<close> (the label of every row of the table) and
    \<^verbatim>\<open>has_diabetes_human_readable\<close>, and has added one new frame, the one it returns; when
    it fails, it has set \<^verbatim>\<open>Has Diabetes\<close> only. It returns exactly when every lookup
    succeeds, that is when every general-health code is present and truncates to a key.

  Nothing else of an existing frame changes: across any sequence of calls the index and the
  loaded columns of the table, so its rows, and every other frame that existed stay as they
  were.
\<close>

theorem prep_functions_frame:
  assumes "r < length st"
  shows "diabetic_bmi_prep st r =
           (Inr r,
            st[r := (st ! r)\<lparr>Has_Diabetes_Bin :=
                               Some (series_astype_bool (Diabetes_binary (st ! r))),
                             Diabetic_Status :=
                               Some (map (\<lambda>x. if x then ''Diabetic'' else ''Non-Diabetic'')
                                       (series_astype_bool (Diabetes_binary (st ! r))))\<rparr>])
         \<and> snd (diabetic_salary_prep st r flag) =
           st[r := (st ! r)\<lparr>Has_Diabetes :=
                              Some (series_astype_bool (Diabetes_binary (st ! r)))\<rparr>]
         \<and> (\<forall>q st'. gen_health_prep st r flag = (Inr q, st') \<longrightarrow>
                (\<exists>labels.
                    map Some labels =
                      map (\<lambda>x. Option.bind x (\<lambda>v. gen_hlth_mapping (py_trunc v)))
                        (GenHlth (st ! r))
                    \<and> take (length st) st' =
                        st[r := (st ! r)\<lparr>Has_Diabetes :=
                               Some (series_astype_bool (Diabetes_binary (st ! r))),
                             General_Health_Assessment := Some labels,
                             has_diabetes_human_readable :=
                               Some (map (\<lambda>x. if x = Some 1 then ''Diabetic''
                                                else ''Non-Diabetic'')
                                       (Diabetes_binary (st ! r)))\<rparr>]
                    \<and> length st' = Suc (length st) \<and> q = length st))
         \<and> (\<forall>e st'. gen_health_prep st r flag = (Inl e, st') \<longrightarrow>
                st' = st[r := (st ! r)\<lparr>Has_Diabetes :=
                                Some (series_astype_bool (Diabetes_binary (st ! r)))\<rparr>])
         \<and> ((\<exists>q st'. gen_health_prep st r flag = (Inr q, st')) \<longleftrightarrow>
              (\<forall>x \<in> set (GenHlth (st ! r)).
                  \<exists>v. x = Some v \<and> py_trunc v \<in> dom gen_hlth_mapping))
         \<and> loaded_columns (after_calls st r cs ! r) = loaded_columns (st ! r)
         \<and> survey_rows (after_calls st r cs ! r) = survey_rows (st ! r)
         \<and> (\<forall>r' < length st. r' \<noteq> r \<longrightarrow> after_calls st r cs ! r' = st ! r')"
proof (intro conjI allI impI)
  show "diabetic_bmi_prep st r =
           (Inr r,
            st[r := (st ! r)\<lparr>Has_Diabetes_Bin :=
                               Some (series_astype_bool (Diabetes_binary (st ! r))),
                             Diabetic_Status :=
                               Some (map (\<lambda>x. if x then ''Diabetic'' else ''Non-Diabetic'')
                                       (series_astype_bool (Diabetes_binary (st ! r))))\<rparr>])"
    using assms by (rule diabetic_bmi_prep_result)
  show "snd (diabetic_salary_prep st r flag) =
           st[r := (st ! r)\<lparr>Has_Diabetes :=
                              Some (series_astype_bool (Diabetes_binary (st ! r)))\<rparr>]"
    by (rule diabetic_salary_prep_store)
  {
    fix q st' assume call: "gen_health_prep st r flag = (Inr q, st')"
    show "\<exists>labels.
        map Some labels =
          map (\<lambda>x. Option.bind x (\<lambda>v. gen_hlth_mapping (py_trunc v))) (GenHlth (st ! r))
        \<and> take (length st) st' =
            st[r := (st ! r)\<lparr>Has_Diabetes :=
                   Some (series_astype_bool (Diabetes_binary (st ! r))),
                 General_Health_Assessment := Some labels,
                 has_diabetes_human_readable :=
                   Some (map (\<lambda>x. if x = Some 1 then ''Diabetic'' else ''Non-Diabetic'')
                           (Diabetes_binary (st ! r)))\<rparr>]
        \<and> length st' = Suc (length st) \<and> q = length st"
    proof (cases "series_apply gen_hlth_label (GenHlth (st ! r))")
      case (Inl e)
      from gen_health_prep_error [OF assms Inl, of flag] call show ?thesis
        by simp
    next
      case (Inr labels)
      from gen_health_prep_result [OF assms Inr, of flag] call
      have "take (length st) st' =
            st[r := (st ! r)\<lparr>Has_Diabetes :=
                   Some (series_astype_bool (Diabetes_binary (st ! r))),
                 General_Health_Assessment := Some labels,
                 has_diabetes_human_readable :=
                   Some (map (\<lambda>x. if x = Some 1 then ''Diabetic'' else ''Non-Diabetic'')
                           (Diabetes_binary (st ! r)))\<rparr>]"
        and "length st' = Suc (length st)" and "q = length st"
        by auto
      with series_apply_gen_labels [OF Inr] show ?thesis
        by blast
    qed
  }
  {
    fix e st' assume call: "gen_health_prep st r flag = (Inl e, st')"
    show "st' = st[r := (st ! r)\<lparr>Has_Diabetes :=
        Some (series_astype_bool (Diabetes_binary (st ! r)))\<rparr>]"
    proof (cases "series_apply gen_hlth_label (GenHlth (st ! r))")
      case (Inl e')
      from gen_health_prep_error [OF assms Inl, of flag] call show ?thesis
        by simp
    next
      case (Inr labels)
      from gen_health_prep_result [OF assms Inr, of flag] call show ?thesis
        by simp
    qed
  }
  show "(\<exists>q st'. gen_health_prep st r flag = (Inr q, st')) \<longleftrightarrow>
      (\<forall>x \<in> set (GenHlth (st ! r)). \<exists>v. x = Some v \<and> py_trunc v \<in> dom gen_hlth_mapping)"
  proof
    assume "\<exists>q st'. gen_health_prep st r flag = (Inr q, st')"
    then show "\<forall>x \<in> set (GenHlth (st ! r)).
        \<exists>v. x = Some v \<and> py_trunc v \<in> dom gen_hlth_mapping"
      using gen_health_prep_fails [OF assms, of flag] by fastforce
  next
    assume "\<forall>x \<in> set (GenHlth (st ! r)). \<exists>v. x = Some v \<and> py_trunc v \<in> dom gen_hlth_mapping"
    from gen_health_prep_returns [OF assms this] obtain labels
      where "series_apply gen_hlth_label (GenHlth (st ! r)) = Inr labels"
      by blast
    from gen_health_prep_result [OF assms this, of flag]
    show "\<exists>q st'. gen_health_prep st r flag = (Inr q, st')"
      by blast
  qed
  from after_calls_frame [OF assms, of cs]
  show ld: "loaded_columns (after_calls st r cs ! r) = loaded_columns (st ! r)"
    by simp
  then show "survey_rows (after_calls st r cs ! r) = survey_rows (st ! r)"
    by (simp add: survey_rows_def loaded_columns_def)
  {
    fix r' assume "r' < length st" and "r' \<noteq> r"
    with after_calls_frame [OF assms, of cs] show "after_calls st r cs ! r' = st ! r'"
      by simp
  }
qed

theorem prep_functions_frame_witness:
  "(0::nat) < length [example_survey]
   \<and> survey_rows
        (after_calls [example_survey] 0
           [Call_salary_prep ''True'', Call_bmi_prep, Call_gen_health_prep ''False'',
            Call_bmi_prep] ! 0) =
       [\<lparr>row_label = 0, row_diabetes = Some 1, row_income = Some 3, row_genHlth = Some 2,
         row_bmi = Some 30, row_other = ()\<rparr>,
        \<lparr>row_label = 1, row_diabetes = Some 0, row_income = Some 3, row_genHlth = Some 4,
         row_bmi = Some 25, row_other = ()\<rparr>,
        \<lparr>row_label = 2, row_diabetes = Some 1, row_income = Some 3, row_genHlth = Some 2,
         row_bmi = Some 31, row_other = ()\<rparr>]
   \<and> Diabetic_Status (snd (diabetic_bmi_prep [example_survey] 0) ! 0) =
       Some [''Diabetic'', ''Non-Diabetic'', ''Diabetic'']"
proof -
  have len: "(0::nat) < length [example_survey]"
    by simp
  note frame = prep_functions_frame [OF len, of "''True''"
      "[Call_salary_prep ''True'', Call_bmi_prep, Call_gen_health_prep ''False'', Call_bmi_prep]"]
  have rows: "survey_rows ([example_survey] ! 0) =
       [\<lparr>row_label = 0, row_diabetes = Some 1, row_income = Some 3, row_genHlth = Some 2,
         row_bmi = Some 30, row_other = ()\<rparr>,
        \<lparr>row_label = 1, row_diabetes = Some 0, row_income = Some 3, row_genHlth = Some 4,
         row_bmi = Some 25, row_other = ()\<rparr>,
        \<lparr>row_label = 2, row_diabetes = Some 1, row_income = Some 3, row_genHlth = Some 2,
         row_bmi = Some 31, row_other = ()\<rparr>]"
    by (simp add: survey_rows_example)
  have status: "Diabetic_Status
       ([example_survey]
        [0 := ([example_survey] ! 0)
           \<lparr>Has_Diabetes_Bin :=
              Some (series_astype_bool (Diabetes_binary ([example_survey] ! 0))),
            Diabetic_Status :=
              Some (map (\<lambda>x. if x then ''Diabetic'' else ''Non-Diabetic'')
                      (series_astype_bool (Diabetes_binary ([example_survey] ! 0))))\<rparr>] ! 0) =
       Some [''Diabetic'', ''Non-Diabetic'', ''Diabetic'']"
    by (simp add: example_survey_def series_astype_bool_def)
  show ?thesis
    unfolding frame [THEN conjunct1] snd_conv
      frame [THEN conjunct2, THEN conjunct2, THEN conjunct2, THEN conjunct2, THEN conjunct2,
        THEN conjunct2, THEN conjunct1]
      rows status
    by simp
qed

text \<open>
  C7 as stated fails: after one call of each function the survey table has a column that it
  did not have before.
\<close>

theorem prep_functions_assign_columns:
  "Diabetic_Status example_survey = None
   \<and> Diabetic_Status (snd (diabetic_bmi_prep [example_survey] 0) ! 0) =
       Some [''Diabetic'', ''Non-Diabetic'', ''Diabetic'']
   \<and> Has_Diabetes example_survey = None
   \<and> Has_Diabetes (snd (diabetic_salary_prep [example_survey] 0 ''True'') ! 0) =
       Some [True, False, True]
   \<and> General_Health_Assessment example_survey = None
   \<and> General_Health_Assessment (snd (gen_health_prep [example_survey] 0 ''True'') ! 0) =
       Some [''Very Good'', ''Fair'', ''Very Good'']"
  by (simp add: example_survey_def diabetic_bmi_prep_def set_Has_Diabetes_Bin_def
      set_Diabetic_Status_def getitem_column_def series_astype_bool_def
      diabetic_salary_prep_store
      gen_health_prep_def set_Has_Diabetes_def set_General_Health_Assessment_def
      set_has_diabetes_human_readable_def applicable_def alloc_def
      gen_hlth_label_def py_int_def dict_getitem_def gen_hlth_mapping_def)

end
